theory Spec2Isabelle
  imports Complex_Main
begin

section \<open>JavaScript numbers\<close>

text \<open>
  The calculation layer of the tracker (\<open>src/lib/calculations.ts\<close>) computes with
  JavaScript numbers: IEEE 754 binary64 doubles. A finite double is the real number
  it stands for; \<open>NaN\<close> is a value of its own, and \<open>Undefined\<close> is a field that is
  absent from a record at run time. Signed zeros and the infinities are not modelled.
\<close>

datatype jsval = Num real | NaN | Undefined

subsection \<open>Rounding to a double\<close>

text \<open>
  The binary exponent of a positive real: the \<open>e\<close> with \<open>2\<^sup>e \<le> x < 2\<^sup>e\<^sup>+\<^sup>1\<close>,
  found by halving from above 2 and by doubling from below 1.
\<close>

function ilog2_up :: "real \<Rightarrow> int" where
  "ilog2_up x = (if 2 \<le> x then ilog2_up (x / 2) + 1 else 0)"
  by pat_completeness auto

function ilog2_down :: "real \<Rightarrow> int" where
  "ilog2_down x = (if 0 < x \<and> x < 1 then ilog2_down (x * 2) - 1 else 0)"
  by pat_completeness auto

definition ilog2 :: "real \<Rightarrow> int" where
  "ilog2 x = (if 1 \<le> x then ilog2_up x else ilog2_down x)"

definition pow2 :: "int \<Rightarrow> real" where
  "pow2 q = (if 0 \<le> q then 2 ^ nat q else 1 / 2 ^ nat (- q))"

text \<open>The nearest integer, a tie going to the even one.\<close>

definition round_ties_even :: "real \<Rightarrow> int" where
  "round_ties_even y =
    (let f = \<lfloor>y\<rfloor>; d = y - of_int f
     in if d < 1 / 2 then f else if 1 / 2 < d then f + 1 else if even f then f else f + 1)"

text \<open>
  \<open>fl x\<close> is the double nearest to \<open>x\<close>: \<open>x\<close> rounded to 53 significant bits, a tie
  going to the even significand, with the fixed spacing \<open>2\<^sup>-\<^sup>1\<^sup>0\<^sup>7\<^sup>4\<close> of the subnormal
  range. Every arithmetic operator returns the rounding of the exact result. Beyond
  the largest double JavaScript has \<open>\<plusminus>Infinity\<close>; the model rounds in the same way at
  every magnitude.
\<close>

definition fl :: "real \<Rightarrow> real" where
  "fl x =
    (if x = 0 then 0
     else (let u = pow2 (max (ilog2 \<bar>x\<bar> - 52) (- 1074))
           in of_int (round_ties_even (x / u)) * u))"

subsection \<open>Operators\<close>

text \<open>
  An arithmetic operator converts \<open>undefined\<close> to \<open>NaN\<close>, and \<open>NaN\<close> in an operand
  gives \<open>NaN\<close>.
\<close>

fun js_add :: "jsval \<Rightarrow> jsval \<Rightarrow> jsval" where
  "js_add (Num x) (Num y) = Num (fl (x + y))"
| "js_add _ _ = NaN"

fun js_sub :: "jsval \<Rightarrow> jsval \<Rightarrow> jsval" where
  "js_sub (Num x) (Num y) = Num (fl (x - y))"
| "js_sub _ _ = NaN"

fun js_mul :: "jsval \<Rightarrow> jsval \<Rightarrow> jsval" where
  "js_mul (Num x) (Num y) = Num (fl (x * y))"
| "js_mul _ _ = NaN"

text \<open>
  A quotient with divisor zero is \<open>\<plusminus>Infinity\<close> or \<open>NaN\<close> in JavaScript, never an
  exception. The infinities are not values of this model; the quotient by zero is
  \<open>NaN\<close> here, so that it is never a \<open>Num\<close>.
\<close>

fun js_div :: "jsval \<Rightarrow> jsval \<Rightarrow> jsval" where
  "js_div (Num x) (Num y) = (if y = 0 then NaN else Num (fl (x / y)))"
| "js_div _ _ = NaN"

text \<open>\<open>a < b\<close> and \<open>a <= b\<close>: false as soon as one side is not a number.\<close>

fun js_lt :: "jsval \<Rightarrow> jsval \<Rightarrow> bool" where
  "js_lt (Num x) (Num y) = (x < y)"
| "js_lt _ _ = False"

fun js_le :: "jsval \<Rightarrow> jsval \<Rightarrow> bool" where
  "js_le (Num x) (Num y) = (x \<le> y)"
| "js_le _ _ = False"

text \<open>Truthiness of a number, as \<open>v || 0\<close> tests it: \<open>0\<close>, \<open>NaN\<close> and \<open>undefined\<close> are falsy.\<close>

fun truthy :: "jsval \<Rightarrow> bool" where
  "truthy (Num x) = (x \<noteq> 0)"
| "truthy _ = False"

text \<open>
  \<open>Math.round\<close>: the integer nearest to the double, a tie going towards \<open>+\<infinity>\<close>. The
  result is exact: below \<open>2\<^sup>5\<^sup>2\<close> every integer is a double, and from \<open>2\<^sup>5\<^sup>2\<close> on every
  double is an integer.
\<close>

fun Math_round :: "jsval \<Rightarrow> jsval" where
  "Math_round (Num x) = Num (of_int \<lfloor>x + 1 / 2\<rfloor>)"
| "Math_round _ = NaN"

section \<open>Data model (\<open>src/types/index.ts\<close>)\<close>

datatype ContractStatus = Yes | No

datatype SiteType = Rooftop | Ground_Mount

text \<open>\<open>maxCapacityMW: number | null\<close>: \<open>None\<close> is \<open>null\<close>.\<close>

record RateTier =
  tier_id :: string
  tierName :: string
  minCapacityMW :: jsval
  maxCapacityMW :: "jsval option"
  ratePerKwp :: jsval

record Site =
  site_id :: string
  site_name :: string
  systemSizeKwp :: jsval
  siteType :: SiteType
  contractStatus :: ContractStatus
  onboardDate :: "string option"
  pmCost :: jsval
  cctvCost :: jsval
  cleaningCost :: jsval
  spvId :: "string option"
  spvCode :: "string option"
  sourceSheet :: "string option"
  sourceRow :: "jsval option"
  createdAt :: string
  updatedAt :: string

record SiteWithCalculations = Site +
  siteFixedCosts :: jsval
  portfolioCost_20MW :: jsval
  portfolioCost_30MW :: jsval
  portfolioCost_40MW :: jsval
  fixedFee_20MW :: jsval
  fixedFee_30MW :: jsval
  fixedFee_40MW :: jsval
  feePerKwp_20MW :: jsval
  feePerKwp_30MW :: jsval
  feePerKwp_40MW :: jsval
  monthlyFee :: jsval

record PortfolioSummary =
  totalSites :: nat
  contractedSites :: nat
  totalCapacityKwp :: jsval
  contractedCapacityKwp :: jsval
  currentTier :: string
  totalMonthlyFee :: jsval
  correctiveDaysAllowed :: jsval
  sitesBySpv :: "string \<rightharpoonup> nat"

text \<open>Reading a property of \<open>undefined\<close> throws a \<open>TypeError\<close>.\<close>

datatype error = TypeError

section \<open>Site fee calculator\<close>

text \<open>The rates \<open>1.8\<close> and \<open>1.7\<close> are the doubles nearest to these decimals.\<close>

definition DEFAULT_RATE_TIERS :: "RateTier list" where
  "DEFAULT_RATE_TIERS =
    [\<lparr>tier_id = ''1'', tierName = ''<20MW'', minCapacityMW = Num 0,
       maxCapacityMW = Some (Num 20), ratePerKwp = Num 2\<rparr>,
     \<lparr>tier_id = ''2'', tierName = ''20-30MW'', minCapacityMW = Num 20,
       maxCapacityMW = Some (Num 30), ratePerKwp = Num (fl (18 / 10))\<rparr>,
     \<lparr>tier_id = ''3'', tierName = ''30-40MW'', minCapacityMW = Num 30,
       maxCapacityMW = Some (Num 40), ratePerKwp = Num (fl (17 / 10))\<rparr>]"

definition calculateSiteFixedCosts :: "'a Site_scheme \<Rightarrow> jsval" where
  "calculateSiteFixedCosts site = js_add (js_add (pmCost site) (cctvCost site)) (cleaningCost site)"

definition calculatePortfolioCost :: "jsval \<Rightarrow> jsval \<Rightarrow> jsval" where
  "calculatePortfolioCost systemSizeKwp' ratePerKwp' = js_mul systemSizeKwp' ratePerKwp'"

definition calculateFixedFee :: "jsval \<Rightarrow> jsval \<Rightarrow> jsval" where
  "calculateFixedFee siteFixedCosts' portfolioCost = js_add siteFixedCosts' portfolioCost"

text \<open>\<open>systemSizeKwp === 0\<close> holds for the number zero only.\<close>

definition calculateFeePerKwp :: "jsval \<Rightarrow> jsval \<Rightarrow> bool \<Rightarrow> jsval" where
  "calculateFeePerKwp fixedFee systemSizeKwp' isContracted =
    (if \<not> isContracted \<or> systemSizeKwp' = Num 0 then Num 0
     else js_div fixedFee systemSizeKwp')"

definition calculateMonthlyFee :: "jsval \<Rightarrow> jsval" where
  "calculateMonthlyFee fixedFee = js_div fixedFee (Num 12)"

text \<open>
  The test of the loop in \<open>determinePortfolioTier\<close>:
  \<open>tier.maxCapacityMW === null || totalCapacityMW < tier.maxCapacityMW\<close>.
\<close>

definition tier_matches :: "jsval \<Rightarrow> RateTier \<Rightarrow> bool" where
  "tier_matches totalCapacityMW tier =
    (case maxCapacityMW tier of None \<Rightarrow> True | Some m \<Rightarrow> js_lt totalCapacityMW m)"

text \<open>
  The \<open>for ... of\<close> loop: it returns the first tier that passes the test; \<open>None\<close>
  when it ends without returning.
\<close>

fun tier_loop :: "jsval \<Rightarrow> RateTier list \<Rightarrow> RateTier option" where
  "tier_loop totalCapacityMW [] = None"
| "tier_loop totalCapacityMW (tier # rest) =
    (if tier_matches totalCapacityMW tier then Some tier else tier_loop totalCapacityMW rest)"

text \<open>\<open>xs[i]\<close>: \<open>undefined\<close> (\<open>None\<close>) outside the array, also at index \<open>-1\<close>.\<close>

definition at_index :: "'a list \<Rightarrow> int \<Rightarrow> 'a option" where
  "at_index xs i = (if 0 \<le> i \<and> i < int (length xs) then Some (xs ! nat i) else None)"

definition determinePortfolioTier :: "jsval \<Rightarrow> RateTier list \<Rightarrow> RateTier option" where
  "determinePortfolioTier totalCapacityMW tiers =
    (case tier_loop totalCapacityMW tiers of
       Some tier \<Rightarrow> Some tier
     | None \<Rightarrow> at_index tiers (int (length tiers) - 1))"

text \<open>\<open>tiers.find(t => t.tierName === n) || tiers[i]\<close>; a tier object is always truthy.\<close>

definition find_tier :: "RateTier list \<Rightarrow> string \<Rightarrow> int \<Rightarrow> RateTier option" where
  "find_tier tiers n i =
    (case find (\<lambda>t. tierName t = n) tiers of Some t \<Rightarrow> Some t | None \<Rightarrow> at_index tiers i)"

text \<open>
  \<open>calculateSiteWithAllTiers\<close>. The three tiers are looked up first; reading
  \<open>ratePerKwp\<close> of a tier that is \<open>undefined\<close> throws. The spread \<open>...site\<close> copies
  the fields of the site into the result, which \<open>Site.extend\<close> does here.
\<close>

definition calculateSiteWithAllTiers :: "Site \<Rightarrow> RateTier list \<Rightarrow> error + SiteWithCalculations" where
  "calculateSiteWithAllTiers site tiers =
    (let siteFixedCosts' = calculateSiteFixedCosts site;
         isContracted = (contractStatus site = Yes);
         tier20MW = find_tier tiers ''<20MW'' 0;
         tier30MW = find_tier tiers ''20-30MW'' 1;
         tier40MW = find_tier tiers ''30-40MW'' 2
     in case tier20MW of None \<Rightarrow> Inl TypeError | Some t20 \<Rightarrow>
        (case tier30MW of None \<Rightarrow> Inl TypeError | Some t30 \<Rightarrow>
        (case tier40MW of None \<Rightarrow> Inl TypeError | Some t40 \<Rightarrow>
        (let pc20 = calculatePortfolioCost (systemSizeKwp site) (ratePerKwp t20);
             pc30 = calculatePortfolioCost (systemSizeKwp site) (ratePerKwp t30);
             pc40 = calculatePortfolioCost (systemSizeKwp site) (ratePerKwp t40);
             ff20 = calculateFixedFee siteFixedCosts' pc20;
             ff30 = calculateFixedFee siteFixedCosts' pc30;
             ff40 = calculateFixedFee siteFixedCosts' pc40;
             fk20 = calculateFeePerKwp ff20 (systemSizeKwp site) isContracted;
             fk30 = calculateFeePerKwp ff30 (systemSizeKwp site) isContracted;
             fk40 = calculateFeePerKwp ff40 (systemSizeKwp site) isContracted;
             monthlyFee' = (if isContracted then calculateMonthlyFee ff20 else Num 0)
         in Inr (Site.extend site
              (SiteWithCalculations.fields siteFixedCosts' pc20 pc30 pc40 ff20 ff30 ff40
                 fk20 fk30 fk40 monthlyFee'))))))"


subsection \<open>The call on objects\<close>

text \<open>
  In the program \<open>site\<close> is a reference to an object. The heap is the list of the
  objects that exist, a reference is an index into it. \<open>calculateSiteWithAllTiers\<close>
  reads the fields of the object it is given (of a \<open>SiteWithCalculations\<close> the spread
  takes the same fields, the derived ones being overwritten), assigns to no field of an
  existing object, and returns a reference to the new object that its \<open>return\<close>
  statement builds. A reference to no object is \<open>undefined\<close>, and reading its fields
  throws.
\<close>

datatype object = Site_object Site | Calc_object SiteWithCalculations

definition site_at :: "object list \<Rightarrow> nat \<Rightarrow> Site option" where
  "site_at heap a =
    (if a < length heap
     then (case heap ! a of Site_object s \<Rightarrow> Some s | Calc_object c \<Rightarrow> Some (Site.truncate c))
     else None)"

definition calculateSiteWithAllTiers_heap ::
  "object list \<Rightarrow> nat \<Rightarrow> RateTier list \<Rightarrow> error + nat \<times> object list" where
  "calculateSiteWithAllTiers_heap heap a tiers =
    (case site_at heap a of
       None \<Rightarrow> Inl TypeError
     | Some site \<Rightarrow>
        (case calculateSiteWithAllTiers site tiers of
           Inl e \<Rightarrow> Inl e
         | Inr r \<Rightarrow> Inr (length heap, heap @ [Calc_object r])))"

section \<open>Portfolio aggregator\<close>

text \<open>\<open>Math.round(x * 10) / 10\<close>, the expression that rounds every emitted value.\<close>

definition round1 :: "jsval \<Rightarrow> jsval" where
  "round1 x = js_div (Math_round (js_mul x (Num 10))) (Num 10)"

definition calculateMonthlyCorrectiveDays :: "jsval \<Rightarrow> jsval" where
  "calculateMonthlyCorrectiveDays capacityMW = round1 (js_div capacityMW (Num 12))"

text \<open>\<open>xs.map(f)\<close> for an \<open>f\<close> that may throw: the first exception ends the map.\<close>

fun map_result :: "('a \<Rightarrow> error + 'b) \<Rightarrow> 'a list \<Rightarrow> error + 'b list" where
  "map_result f [] = Inr []"
| "map_result f (x # xs) =
    (case f x of
       Inl e \<Rightarrow> Inl e
     | Inr y \<Rightarrow> (case map_result f xs of Inl e \<Rightarrow> Inl e | Inr ys \<Rightarrow> Inr (y # ys)))"

definition sum_systemSize :: "Site list \<Rightarrow> jsval" where
  "sum_systemSize sites = foldl (\<lambda>sum s. js_add sum (systemSizeKwp s)) (Num 0) sites"

text \<open>\<open>site.spvCode || 'Unassigned'\<close>: \<open>null\<close> and the empty string are falsy.\<close>

definition spv_label :: "Site \<Rightarrow> string" where
  "spv_label site =
    (case spvCode site of None \<Rightarrow> ''Unassigned''
     | Some c \<Rightarrow> if c = [] then ''Unassigned'' else c)"

definition count_spv :: "(string \<rightharpoonup> nat) \<Rightarrow> Site \<Rightarrow> (string \<rightharpoonup> nat)" where
  "count_spv m site =
    m(spv_label site \<mapsto> (case m (spv_label site) of None \<Rightarrow> 1 | Some c \<Rightarrow> c + 1))"

text \<open>
  \<open>calculatePortfolioSummary\<close> takes the sites only: both \<open>determinePortfolioTier\<close> and
  \<open>calculateSiteWithAllTiers\<close> are called without a tier table and so with their
  default, \<open>DEFAULT_RATE_TIERS\<close>. \<open>currentTier.tierName\<close> throws when the tier is
  \<open>undefined\<close>.
\<close>

definition calculatePortfolioSummary :: "Site list \<Rightarrow> error + PortfolioSummary" where
  "calculatePortfolioSummary sites =
    (let contractedSites' = filter (\<lambda>s. contractStatus s = Yes) sites;
         totalCapacityKwp' = sum_systemSize sites;
         contractedCapacityKwp' = sum_systemSize contractedSites';
         currentTier' = determinePortfolioTier (js_div contractedCapacityKwp' (Num 1000))
                          DEFAULT_RATE_TIERS
     in case map_result (\<lambda>s. calculateSiteWithAllTiers s DEFAULT_RATE_TIERS) contractedSites' of
          Inl e \<Rightarrow> Inl e
        | Inr sitesWithCalcs \<Rightarrow>
           (let totalMonthlyFee' = foldl (\<lambda>sum s. js_add sum (monthlyFee s)) (Num 0) sitesWithCalcs;
                correctiveDaysAllowed' =
                  calculateMonthlyCorrectiveDays (js_div contractedCapacityKwp' (Num 1000));
                sitesBySpv' = foldl count_spv Map.empty sites
            in case currentTier' of
                 None \<Rightarrow> Inl TypeError
               | Some tier \<Rightarrow>
                   Inr \<lparr>totalSites = length sites,
                        contractedSites = length contractedSites',
                        totalCapacityKwp = totalCapacityKwp',
                        contractedCapacityKwp = contractedCapacityKwp',
                        currentTier = tierName tier,
                        totalMonthlyFee = totalMonthlyFee',
                        correctiveDaysAllowed = correctiveDaysAllowed',
                        sitesBySpv = sitesBySpv'\<rparr>))"


section \<open>Dates\<close>

text \<open>
  A \<open>Date\<close> object holds a time value: milliseconds since 1970-01-01T00:00Z, or
  \<open>NaN\<close> for an invalid date (\<open>None\<close> here). The day and calendar functions are those
  of the ECMAScript standard; \<open>div\<close> and \<open>mod\<close> on \<open>int\<close> are its \<open>floor\<close> quotient
  and its modulo.
\<close>

definition msPerDay :: int where
  "msPerDay = 86400000"

definition Day :: "int \<Rightarrow> int" where
  "Day t = t div msPerDay"

definition TimeWithinDay :: "int \<Rightarrow> int" where
  "TimeWithinDay t = t mod msPerDay"

definition DayFromYear :: "int \<Rightarrow> int" where
  "DayFromYear y = 365 * (y - 1970) + (y - 1969) div 4 - (y - 1901) div 100 + (y - 1601) div 400"

definition InLeapYear :: "int \<Rightarrow> bool" where
  "InLeapYear y = (y mod 4 = 0 \<and> (y mod 100 \<noteq> 0 \<or> y mod 400 = 0))"

text \<open>The day of the year on which month \<open>m\<close> (0 = January) starts.\<close>

definition month_start :: "bool \<Rightarrow> int \<Rightarrow> int" where
  "month_start leap m =
    (if m = 0 then 0 else if m = 1 then 31
     else [59, 90, 120, 151, 181, 212, 243, 273, 304, 334] ! nat (m - 2) + (if leap then 1 else 0))"

text \<open>
  \<open>YearFromTime\<close> is the largest year that starts on or before the day; it is one of
  the three years around the estimate by the mean length of a year.
\<close>

definition YearFromDay :: "int \<Rightarrow> int" where
  "YearFromDay d =
    (let y = 1970 + (d * 400) div 146097
     in if d < DayFromYear y then y - 1 else if DayFromYear (y + 1) \<le> d then y + 1 else y)"

definition DayWithinYear :: "int \<Rightarrow> int" where
  "DayWithinYear d = d - DayFromYear (YearFromDay d)"

text \<open>\<open>MonthFromTime\<close>: the last month that starts on or before the day of the year.\<close>

definition MonthFromDay :: "int \<Rightarrow> int" where
  "MonthFromDay d =
    (let leap = InLeapYear (YearFromDay d); w = DayWithinYear d
     in int (length (filter (\<lambda>m. month_start leap (int m) \<le> w) [1 ..< 12])))"

definition DateFromDay :: "int \<Rightarrow> int" where
  "DateFromDay d =
    DayWithinYear d - month_start (InLeapYear (YearFromDay d)) (MonthFromDay d) + 1"

text \<open>\<open>MakeDay(year, month, date)\<close>: months beyond a year and days beyond a month carry over.\<close>

definition MakeDay :: "int \<Rightarrow> int \<Rightarrow> int \<Rightarrow> int" where
  "MakeDay year month date =
    (let ym = year + month div 12; mn = month mod 12
     in DayFromYear ym + month_start (InLeapYear ym) mn + date - 1)"

definition MakeDate :: "int \<Rightarrow> int \<Rightarrow> int" where
  "MakeDate day time = day * msPerDay + time"

definition TimeClip :: "int \<Rightarrow> int option" where
  "TimeClip t = (if \<bar>t\<bar> > 8640000000000000 then None else Some t)"

text \<open>
  What the run-time environment supplies: the offset of local time from UTC in
  milliseconds (taken as constant), the reading of the system clock by \<open>new Date()\<close>,
  and the results of \<open>Date.parse\<close> and \<open>Number\<close> on the strings that the two parsers
  below do not cover.
\<close>

record Env =
  localTZA :: int
  clock :: int
  Date_parse_other :: "string \<Rightarrow> int option"
  Number_other :: "string \<Rightarrow> jsval"

subsection \<open>Strings\<close>

definition is_digit :: "char \<Rightarrow> bool" where
  "is_digit c = (48 \<le> (of_char c :: nat) \<and> (of_char c :: nat) \<le> 57)"

definition digits_value :: "string \<Rightarrow> nat" where
  "digits_value s = foldl (\<lambda>n c. 10 * n + (of_char c - 48)) 0 s"

text \<open>\<open>s.split(c)\<close> for a one-character separator.\<close>

fun split_on :: "char \<Rightarrow> string \<Rightarrow> string list" where
  "split_on c [] = [[]]"
| "split_on c (x # xs) =
    (if x = c then [] # split_on c xs
     else (case split_on c xs of w # ws \<Rightarrow> (x # w) # ws | [] \<Rightarrow> [[x]]))"

text \<open>
  \<open>Number(s)\<close> on a string: a non-empty string of decimal digits is its value; every
  other string is left to the environment.
\<close>

definition Number_str :: "Env \<Rightarrow> string \<Rightarrow> jsval" where
  "Number_str env s =
    (if s \<noteq> [] \<and> list_all is_digit s then Num (fl (of_nat (digits_value s)))
     else Number_other env s)"

text \<open>\<open>String(n)\<close> for an integer and \<open>padStart(2, '0')\<close>.\<close>

definition digit_char :: "nat \<Rightarrow> char" where
  "digit_char n = ''0123456789'' ! (n mod 10)"

fun show_nat :: "nat \<Rightarrow> string" where
  "show_nat n = (if n < 10 then [digit_char n] else show_nat (n div 10) @ [digit_char n])"

declare show_nat.simps [simp del]

definition show_int :: "int \<Rightarrow> string" where
  "show_int i = (if i < 0 then CHR ''-'' # show_nat (nat (- i)) else show_nat (nat i))"

definition padStart2 :: "string \<Rightarrow> string" where
  "padStart2 s = replicate (2 - length s) CHR ''0'' @ s"

subsection \<open>Constructing and parsing dates\<close>

definition DaysInMonth :: "int \<Rightarrow> int \<Rightarrow> int" where
  "DaysInMonth y m =
    (if m = 2 then (if InLeapYear y then 29 else 28)
     else if m = 4 \<or> m = 6 \<or> m = 9 \<or> m = 11 then 30 else 31)"

text \<open>
  The date-only form \<open>YYYY-MM-DD\<close> of the standard's date-time string format. It is
  read as midnight UTC of that day.
\<close>

definition parse_iso_date :: "string \<Rightarrow> int option" where
  "parse_iso_date s =
    (if length s = 10 \<and> s ! 4 = CHR ''-'' \<and> s ! 7 = CHR ''-''
        \<and> list_all is_digit (take 4 s) \<and> list_all is_digit (take 2 (drop 5 s))
        \<and> list_all is_digit (drop 8 s)
     then (let y = int (digits_value (take 4 s));
               m = int (digits_value (take 2 (drop 5 s)));
               d = int (digits_value (drop 8 s))
           in if 1 \<le> m \<and> m \<le> 12 \<and> 1 \<le> d \<and> d \<le> DaysInMonth y m
              then Some (MakeDate (MakeDay y (m - 1) d) 0) else None)
     else None)"

text \<open>\<open>new Date(s)\<close> for a string \<open>s\<close>.\<close>

definition Date_parse :: "Env \<Rightarrow> string \<Rightarrow> int option" where
  "Date_parse env s =
    (case parse_iso_date s of Some t \<Rightarrow> Some t | None \<Rightarrow> Date_parse_other env s)"

text \<open>\<open>ToIntegerOrInfinity\<close> on a finite number: truncation towards zero.\<close>

definition trunc :: "real \<Rightarrow> int" where
  "trunc x = (if 0 \<le> x then \<lfloor>x\<rfloor> else \<lceil>x\<rceil>)"

text \<open>
  \<open>new Date(year, month, date)\<close>: the fields are local time, so the time value is the
  local midnight moved to UTC. A year from 0 to 99 means 1900 + year. An argument that
  is not a number makes the date invalid.
\<close>

definition Date_fields :: "Env \<Rightarrow> jsval \<Rightarrow> jsval \<Rightarrow> jsval \<Rightarrow> int option" where
  "Date_fields env year month date =
    (case (year, month, date) of
       (Num y, Num m, Num dt) \<Rightarrow>
         (let yi = trunc y;
              yr = (if 0 \<le> yi \<and> yi \<le> 99 then 1900 + yi else yi)
          in TimeClip (MakeDate (MakeDay yr (trunc m) (trunc dt)) 0 - localTZA env))
     | _ \<Rightarrow> None)"

text \<open>\<open>a <= b\<close> on two dates compares their time values; it is false for an invalid date.\<close>

fun date_le :: "int option \<Rightarrow> int option \<Rightarrow> bool" where
  "date_le (Some a) (Some b) = (a \<le> b)"
| "date_le _ _ = False"

fun getTime :: "int option \<Rightarrow> jsval" where
  "getTime (Some t) = Num (of_int t)"
| "getTime None = NaN"

text \<open>The local calendar fields of a valid date, and the two setters the tracker uses.\<close>

definition getFullYear :: "Env \<Rightarrow> int \<Rightarrow> int" where
  "getFullYear env t = YearFromDay (Day (t + localTZA env))"

definition getMonth :: "Env \<Rightarrow> int \<Rightarrow> int" where
  "getMonth env t = MonthFromDay (Day (t + localTZA env))"

definition getDate :: "Env \<Rightarrow> int \<Rightarrow> int" where
  "getDate env t = DateFromDay (Day (t + localTZA env))"

definition setDate :: "Env \<Rightarrow> int option \<Rightarrow> int \<Rightarrow> int option" where
  "setDate env d dt =
    (case d of None \<Rightarrow> None
     | Some t \<Rightarrow>
        TimeClip (MakeDate (MakeDay (getFullYear env t) (getMonth env t) dt)
                    (TimeWithinDay (t + localTZA env)) - localTZA env))"

definition setMonth :: "Env \<Rightarrow> int option \<Rightarrow> int \<Rightarrow> int option" where
  "setMonth env d m =
    (case d of None \<Rightarrow> None
     | Some t \<Rightarrow>
        TimeClip (MakeDate (MakeDay (getFullYear env t) m (getDate env t))
                    (TimeWithinDay (t + localTZA env)) - localTZA env))"


section \<open>CM days reconciler\<close>

record CMDaysUsage =
  usage_id :: string
  usage_yearMonth :: string
  usage_daysUsed :: jsval
  usage_notes :: "string option"
  usage_createdAt :: string
  usage_updatedAt :: string

record CMDaysMonthData =
  yearMonth :: string
  daysAccumulated :: jsval
  daysUsed :: jsval
  daysRemaining :: jsval
  cumulativeAccumulated :: jsval
  cumulativeUsed :: jsval
  cumulativeRemaining :: jsval

record CMDaysTrackingSummary =
  portfolioStartDate :: "string option"
  monthlyData :: "CMDaysMonthData list"
  totalAccumulated :: jsval
  totalUsed :: jsval
  totalRemaining :: jsval

text \<open>\<open>s.contractStatus === 'Yes' && s.onboardDate\<close>: \<open>null\<close> and the empty string are falsy.\<close>

definition has_onboardDate :: "Site \<Rightarrow> bool" where
  "has_onboardDate s = (case onboardDate s of None \<Rightarrow> False | Some d \<Rightarrow> d \<noteq> [])"

text \<open>
  \<open>xs.sort(cmp)\<close> as a stable insertion sort: \<open>x\<close> stays before \<open>y\<close> unless
  \<open>cmp x y > 0\<close>. Every stable sort gives this result when \<open>cmp\<close> is a consistent
  order; otherwise (an unparsable date makes the difference \<open>NaN\<close>) the standard
  leaves the order to the engine.
\<close>

fun insert_by :: "('a \<Rightarrow> 'a \<Rightarrow> jsval) \<Rightarrow> 'a \<Rightarrow> 'a list \<Rightarrow> 'a list" where
  "insert_by cmp x [] = [x]"
| "insert_by cmp x (y # ys) =
    (if js_lt (Num 0) (cmp x y) then y # insert_by cmp x ys else x # y # ys)"

definition sort_by :: "('a \<Rightarrow> 'a \<Rightarrow> jsval) \<Rightarrow> 'a list \<Rightarrow> 'a list" where
  "sort_by cmp xs = foldr (insert_by cmp) xs []"

definition getPortfolioStartDate :: "Env \<Rightarrow> Site list \<Rightarrow> string option" where
  "getPortfolioStartDate env sites =
    (let contractedSites' = filter (\<lambda>s. contractStatus s = Yes \<and> has_onboardDate s) sites
     in if length contractedSites' = 0 then None
        else (let sortedDates =
                    sort_by (\<lambda>a b. js_sub (getTime (Date_parse env a)) (getTime (Date_parse env b)))
                      (map (\<lambda>s. the (onboardDate s)) contractedSites')
              in at_index sortedDates 0))"

text \<open>
  The \<open>while (start <= now)\<close> loop of \<open>getMonthsFromStart\<close>; an invalid \<open>start\<close>
  ends it, since the comparison is then false.
\<close>

function months_loop ::
  "Env \<Rightarrow> int option \<Rightarrow> int option \<Rightarrow> string list \<Rightarrow> string list" where
  "months_loop env now start months =
    (case start of
       None \<Rightarrow> months
     | Some t \<Rightarrow>
        if date_le start now
        then months_loop env now (setMonth env start (getMonth env t + 1))
               (months @ [show_int (getFullYear env t) @ ''-'' @ padStart2 (show_int (getMonth env t + 1))])
        else months)"
  by pat_completeness auto

definition getMonthsFromStart :: "Env \<Rightarrow> string \<Rightarrow> string list" where
  "getMonthsFromStart env startDate =
    (let start = setDate env (Date_parse env startDate) 1;
         now = setDate env (Some (clock env)) 1
     in months_loop env now start [])"

text \<open>
  \<open>const [year, month] = yearMonth.split('-').map(Number)\<close>: a missing element is
  \<open>undefined\<close>.
\<close>

definition elem_or_undefined :: "jsval list \<Rightarrow> int \<Rightarrow> jsval" where
  "elem_or_undefined xs i = (case at_index xs i of None \<Rightarrow> Undefined | Some v \<Rightarrow> v)"

definition endOfMonth :: "Env \<Rightarrow> string \<Rightarrow> int option" where
  "endOfMonth env yearMonth' =
    (let parts = map (Number_str env) (split_on CHR ''-'' yearMonth')
     in Date_fields env (elem_or_undefined parts 0) (elem_or_undefined parts 1) (Num 0))"

definition getContractedCapacityKwpForMonth :: "Env \<Rightarrow> Site list \<Rightarrow> string \<Rightarrow> jsval" where
  "getContractedCapacityKwpForMonth env sites yearMonth' =
    sum_systemSize
      (filter (\<lambda>s. if contractStatus s \<noteq> Yes \<or> \<not> has_onboardDate s then False
                    else date_le (Date_parse env (the (onboardDate s))) (endOfMonth env yearMonth'))
         sites)"

text \<open>
  \<open>new Map(cmDaysUsage.map(u => [u.yearMonth, u.daysUsed]))\<close>: a later record with the
  same key replaces an earlier one. \<open>usageMap.get(yearMonth) || 0\<close> is \<open>0\<close> for a
  missing key and for a falsy value.
\<close>

definition usageMap :: "CMDaysUsage list \<Rightarrow> (string \<rightharpoonup> jsval)" where
  "usageMap cmDaysUsage = foldl (\<lambda>m u. m(usage_yearMonth u \<mapsto> usage_daysUsed u)) Map.empty cmDaysUsage"

definition usage_or_0 :: "(string \<rightharpoonup> jsval) \<Rightarrow> string \<Rightarrow> jsval" where
  "usage_or_0 m ym = (case m ym of None \<Rightarrow> Num 0 | Some v \<Rightarrow> if truthy v then v else Num 0)"

text \<open>
  The \<open>daysAccumulated\<close> of a month in the callback:
  \<open>calculateMonthlyCorrectiveDays(getContractedCapacityKwpForMonth(sites, yearMonth) / 1000)\<close>.
\<close>

definition month_accumulated :: "Env \<Rightarrow> Site list \<Rightarrow> string \<Rightarrow> jsval" where
  "month_accumulated env sites ym =
    calculateMonthlyCorrectiveDays (js_div (getContractedCapacityKwpForMonth env sites ym) (Num 1000))"

text \<open>
  The callback of \<open>months.map\<close> updates the two running sums that the enclosing
  function declares; the model passes them along and returns them with the rows.
\<close>

fun tracking_rows ::
  "Env \<Rightarrow> Site list \<Rightarrow> (string \<rightharpoonup> jsval) \<Rightarrow> jsval \<Rightarrow> jsval \<Rightarrow> string list
     \<Rightarrow> CMDaysMonthData list \<times> jsval \<times> jsval" where
  "tracking_rows env sites um cumAcc cumUsed [] = ([], cumAcc, cumUsed)"
| "tracking_rows env sites um cumAcc cumUsed (ym # rest) =
    (let daysAccumulated' = month_accumulated env sites ym;
         daysUsed' = usage_or_0 um ym;
         daysRemaining' = js_sub daysAccumulated' daysUsed';
         cumAcc' = js_add cumAcc daysAccumulated';
         cumUsed' = js_add cumUsed daysUsed';
         cumulativeRemaining' = js_sub cumAcc' cumUsed';
         row = \<lparr>yearMonth = ym,
                daysAccumulated = round1 daysAccumulated',
                daysUsed = daysUsed',
                daysRemaining = round1 daysRemaining',
                cumulativeAccumulated = round1 cumAcc',
                cumulativeUsed = round1 cumUsed',
                cumulativeRemaining = round1 cumulativeRemaining'\<rparr>
     in case tracking_rows env sites um cumAcc' cumUsed' rest of
          (rows, a, u) \<Rightarrow> (row # rows, a, u))"

definition empty_tracking :: CMDaysTrackingSummary where
  "empty_tracking =
    \<lparr>portfolioStartDate = None, monthlyData = [], totalAccumulated = Num 0,
     totalUsed = Num 0, totalRemaining = Num 0\<rparr>"

text \<open>
  \<open>calculateCMDaysTracking\<close>; \<open>!portfolioStartDate\<close> holds for \<open>null\<close> and for the
  empty string.
\<close>

definition calculateCMDaysTracking ::
  "Env \<Rightarrow> Site list \<Rightarrow> CMDaysUsage list \<Rightarrow> CMDaysTrackingSummary" where
  "calculateCMDaysTracking env sites cmDaysUsage =
    (case getPortfolioStartDate env sites of
       None \<Rightarrow> empty_tracking
     | Some startDate \<Rightarrow>
        if startDate = [] then empty_tracking
        else (case tracking_rows env sites (usageMap cmDaysUsage) (Num 0) (Num 0)
                     (getMonthsFromStart env startDate) of
                (rows, cumAcc, cumUsed) \<Rightarrow>
                  \<lparr>portfolioStartDate = Some startDate,
                   monthlyData = rows,
                   totalAccumulated = round1 cumAcc,
                   totalUsed = round1 cumUsed,
                   totalRemaining = round1 (js_sub cumAcc cumUsed)\<rparr>))"


text \<open>
  Rounding half away from zero, to an integer and at one decimal place, as the
  specification words the rounding of the emitted values; the code rounds with
  \<open>round1\<close>.
\<close>

definition half_away :: "real \<Rightarrow> int" where
  "half_away p = (if p < 0 then - \<lfloor>- p + 1 / 2\<rfloor> else \<lfloor>p + 1 / 2\<rfloor>)"

definition spec_round_half_away :: "real \<Rightarrow> real" where
  "spec_round_half_away x = of_int (half_away (x * 10)) / 10"

section \<open>Example inputs\<close>

text \<open>
  A contracted 12 MW site onboarded on 2024-01-15 (scenario 3 of the specification),
  a server on UTC whose clock reads 2024-04-10T12:00Z, and the same server one hour
  ahead of UTC (British Summer Time).
\<close>

definition example_site :: Site where
  "example_site =
    \<lparr>site_id = ''s1'', site_name = ''Site A'', systemSizeKwp = Num 12000, siteType = Rooftop,
     contractStatus = Yes, onboardDate = Some ''2024-01-15'', pmCost = Num 600,
     cctvCost = Num 100, cleaningCost = Num 50, spvId = None, spvCode = None,
     sourceSheet = None, sourceRow = None, createdAt = ''2024-01-15'',
     updatedAt = ''2024-01-15''\<rparr>"

definition example_env :: Env where
  "example_env =
    \<lparr>localTZA = 0, clock = 1712750400000, Date_parse_other = (\<lambda>s. None),
     Number_other = (\<lambda>s. NaN)\<rparr>"

definition example_env_bst :: Env where
  "example_env_bst = example_env\<lparr>localTZA := 3600000\<rparr>"

text \<open>A usage record for one month.\<close>

definition example_usage :: "string \<Rightarrow> jsval \<Rightarrow> CMDaysUsage" where
  "example_usage ym d =
    \<lparr>usage_id = ''u1'', usage_yearMonth = ym, usage_daysUsed = d, usage_notes = None,
     usage_createdAt = ''2024-02-01'', usage_updatedAt = ''2024-02-01''\<rparr>"

text \<open>A tier table, ordered by capacity, whose lowest band is not the one named \<open><20MW\<close>.\<close>

definition example_tiers :: "RateTier list" where
  "example_tiers =
    [\<lparr>tier_id = ''0'', tierName = ''<10MW'', minCapacityMW = Num 0,
       maxCapacityMW = Some (Num 10), ratePerKwp = Num (5 / 2)\<rparr>,
     \<lparr>tier_id = ''1'', tierName = ''<20MW'', minCapacityMW = Num 10,
       maxCapacityMW = Some (Num 20), ratePerKwp = Num 2\<rparr>,
     \<lparr>tier_id = ''2'', tierName = ''20-30MW'', minCapacityMW = Num 20,
       maxCapacityMW = Some (Num 30), ratePerKwp = Num (fl (18 / 10))\<rparr>,
     \<lparr>tier_id = ''3'', tierName = ''30-40MW'', minCapacityMW = Num 30,
       maxCapacityMW = None, ratePerKwp = Num (fl (17 / 10))\<rparr>]"

section \<open>Rounding to a double\<close>

text \<open>The two searches for the exponent end.\<close>

termination ilog2_up
proof (relation "measure (\<lambda>x. nat \<lfloor>x\<rfloor>)")
  show "wf (measure (\<lambda>x :: real. nat \<lfloor>x\<rfloor>))" by simp
next
  fix x :: real
  assume x: "2 \<le> x"
  then have "x / 2 \<le> x - 1" by simp
  then have "\<lfloor>x / 2\<rfloor> \<le> \<lfloor>x - 1\<rfloor>" by (rule floor_mono)
  moreover have "1 \<le> \<lfloor>x\<rfloor>" using x by linarith
  ultimately show "(x / 2, x) \<in> measure (\<lambda>x. nat \<lfloor>x\<rfloor>)" by simp
qed

termination ilog2_down
proof (relation "measure (\<lambda>x. nat \<lceil>1 / x\<rceil>)")
  show "wf (measure (\<lambda>x :: real. nat \<lceil>1 / x\<rceil>))" by simp
next
  fix x :: real
  assume x: "0 < x \<and> x < 1"
  define y where "y = 1 / x"
  have y: "1 < y" using x by (simp add: y_def)
  have h: "1 / (x * 2) = y / 2" by (simp add: y_def)
  have "\<lceil>y / 2\<rceil> < \<lceil>y\<rceil>"
  proof (cases "2 \<le> y")
    case True
    then have "y / 2 \<le> y - 1" by simp
    then have "\<lceil>y / 2\<rceil> \<le> \<lceil>y - 1\<rceil>" by (rule ceiling_mono)
    then show ?thesis by simp
  next
    case False
    then have "y / 2 \<le> 1" by simp
    then have "\<lceil>y / 2\<rceil> \<le> 1" by (simp add: ceiling_le_iff)
    moreover have "1 < \<lceil>y\<rceil>" using y by (simp add: less_ceiling_iff)
    ultimately show ?thesis by linarith
  qed
  moreover have "0 < \<lceil>y\<rceil>" using y by (simp add: less_ceiling_iff)
  ultimately show "(x * 2, x) \<in> measure (\<lambda>x. nat \<lceil>1 / x\<rceil>)"
    by (simp add: h y_def [symmetric])
qed

declare ilog2_up.simps [simp del] ilog2_down.simps [simp del]

text \<open>The equations that evaluate \<open>fl\<close> at a numeral.\<close>

lemmas fl_eval = fl_def ilog2_def ilog2_up.simps ilog2_down.simps round_ties_even_def
  pow2_def Let_def

lemma fl_0 [simp]: "fl 0 = 0"
  by (simp add: fl_def)

section \<open>The calendar\<close>

lemma div_step:
  fixes n k :: int
  assumes "0 < k"
  shows "(n + 1) div k = n div k + (if (n + 1) mod k = 0 then 1 else 0)"
proof -
  define q r where "q = n div k" and "r = n mod k"
  have n: "n = k * q + r" by (simp add: q_def r_def)
  have r: "0 \<le> r" "r < k" using assms by (simp_all add: r_def)
  show ?thesis
  proof (cases "r + 1 = k")
    case True
    then have e: "n + 1 = k * (q + 1) + 0" using n by (simp add: algebra_simps)
    have "(n + 1) div k = q + 1" by (rule int_div_pos_eq [OF e]) (use assms in simp_all)
    moreover have "(n + 1) mod k = 0" by (rule int_mod_pos_eq [OF e]) (use assms in simp_all)
    ultimately show ?thesis by (simp add: q_def)
  next
    case False
    then have lt: "r + 1 < k" and ge: "0 \<le> r + 1" using r by simp_all
    have e: "n + 1 = k * q + (r + 1)" using n by simp
    have "(n + 1) div k = q" by (rule int_div_pos_eq [OF e ge lt])
    moreover have "(n + 1) mod k = r + 1" by (rule int_mod_pos_eq [OF e ge lt])
    ultimately show ?thesis using r by (simp add: q_def)
  qed
qed

lemma leap_arith:
  fixes A B C y :: int
  assumes "pb \<Longrightarrow> pa" "pc \<Longrightarrow> pb"
  shows "365 * (y + 1 - 1970) + (A + (if pa then 1 else 0)) - (B + (if pb then 1 else 0))
           + (C + (if pc then 1 else 0))
         = 365 * (y - 1970) + A - B + C + (if pa \<and> (\<not> pb \<or> pc) then 366 else 365)"
  using assms by (cases pa; cases pb; cases pc) simp_all

text \<open>A year has 366 days if it is a leap year and 365 otherwise.\<close>

lemma DayFromYear_Suc:
  "DayFromYear (y + 1) = DayFromYear y + (if InLeapYear y then 366 else 365)"
proof -
  have a: "(y + 1 - 1969) div 4 = (y - 1969) div 4 + (if y mod 4 = 0 then 1 else 0)"
    using div_step [of 4 "y - 1969"] mod_mult_self2 [of y 4 "- 492"] by simp
  have b: "(y + 1 - 1901) div 100 = (y - 1901) div 100 + (if y mod 100 = 0 then 1 else 0)"
    using div_step [of 100 "y - 1901"] mod_mult_self2 [of y 100 "- 19"] by simp
  have c: "(y + 1 - 1601) div 400 = (y - 1601) div 400 + (if y mod 400 = 0 then 1 else 0)"
    using div_step [of 400 "y - 1601"] mod_mult_self2 [of y 400 "- 4"] by simp
  have d: "y mod 100 = 0 \<Longrightarrow> y mod 4 = 0"
    using dvd_trans [of 4 100 y] by (simp add: mod_eq_0_iff_dvd)
  have e: "y mod 400 = 0 \<Longrightarrow> y mod 100 = 0"
    using dvd_trans [of 100 400 y] by (simp add: mod_eq_0_iff_dvd)
  show ?thesis
    unfolding DayFromYear_def InLeapYear_def a b c
    by (rule leap_arith [where pa = "y mod 4 = 0" and pb = "y mod 100 = 0"
          and pc = "y mod 400 = 0", OF d e])
qed

lemma DayFromYear_bounds:
  "400 * DayFromYear y \<le> 146097 * (y - 1970) + 593"
  "146097 * (y - 1970) - 607 \<le> 400 * DayFromYear y"
proof -
  define a b c where "a = (y - 1969) div 4" and "b = (y - 1901) div 100"
    and "c = (y - 1601) div 400"
  have a: "4 * a \<le> y - 1969" "y - 1969 < 4 * a + 4"
    using div_mult_mod_eq [of "y - 1969" 4] pos_mod_bound [of 4 "y - 1969"]
      pos_mod_sign [of 4 "y - 1969"] by (simp_all add: a_def)
  have b: "100 * b \<le> y - 1901" "y - 1901 < 100 * b + 100"
    using div_mult_mod_eq [of "y - 1901" 100] pos_mod_bound [of 100 "y - 1901"]
      pos_mod_sign [of 100 "y - 1901"] by (simp_all add: b_def)
  have c: "400 * c \<le> y - 1601" "y - 1601 < 400 * c + 400"
    using div_mult_mod_eq [of "y - 1601" 400] pos_mod_bound [of 400 "y - 1601"]
      pos_mod_sign [of 400 "y - 1601"] by (simp_all add: c_def)
  have d: "DayFromYear y = 365 * (y - 1970) + a - b + c"
    by (simp add: DayFromYear_def a_def b_def c_def)
  have a': "400 * a \<le> 100 * (y - 1969)" "100 * (y - 1969) - 300 \<le> 400 * a"
    using a by simp_all
  have b': "400 * b \<le> 4 * (y - 1901)" "4 * (y - 1901) - 396 \<le> 400 * b"
    using b by simp_all
  have c': "400 * c \<le> y - 1601" "y - 1601 - 399 \<le> 400 * c"
    using c by simp_all
  show "400 * DayFromYear y \<le> 146097 * (y - 1970) + 593"
    unfolding d using a' b' c' by simp
  show "146097 * (y - 1970) - 607 \<le> 400 * DayFromYear y"
    unfolding d using a' b' c' by simp
qed

text \<open>\<open>YearFromDay\<close> is the year the day lies in, as \<open>YearFromTime\<close> is defined.\<close>

lemma YearFromDay_correct:
  "DayFromYear (YearFromDay d) \<le> d \<and> d < DayFromYear (YearFromDay d + 1)"
proof -
  define u where "u = (d * 400) div 146097"
  have u: "146097 * u \<le> d * 400" "d * 400 < 146097 * u + 146097"
    using div_mult_mod_eq [of "d * 400" 146097] pos_mod_bound [of 146097 "d * 400"]
      pos_mod_sign [of 146097 "d * 400"] by (simp_all add: u_def)
  have "400 * DayFromYear (1970 + u - 1) \<le> 400 * d"
    using DayFromYear_bounds(1) [of "1970 + u - 1"] u by simp
  then have lo: "DayFromYear (1970 + u - 1) \<le> d" by simp
  have "400 * d < 400 * DayFromYear (1970 + u + 2)"
    using DayFromYear_bounds(2) [of "1970 + u + 2"] u by simp
  then have hi: "d < DayFromYear (1970 + u + 2)" by simp
  have e: "1970 + u - 1 + 1 = 1970 + u" "1970 + u + 1 + 1 = 1970 + u + 2" by simp_all
  show ?thesis
    using lo hi e by (simp add: YearFromDay_def Let_def u_def [symmetric])
qed

lemma MonthFromDay_range: "0 \<le> MonthFromDay d \<and> MonthFromDay d \<le> 11"
proof -
  have "length (filter P [1 ..< 12 :: nat]) \<le> 11" for P
    using length_filter_le [of P "[1 ..< 12]"] by simp
  then show ?thesis by (simp add: MonthFromDay_def Let_def)
qed

text \<open>The calendar fields of a day give the day back.\<close>

lemma MakeDay_fields: "MakeDay (YearFromDay d) (MonthFromDay d) (DateFromDay d) = d"
  using MonthFromDay_range [of d]
  by (simp add: MakeDay_def DateFromDay_def DayWithinYear_def)

lemma month_start_next:
  assumes "0 \<le> m" "m < 11"
  shows "month_start leap m + 28 \<le> month_start leap (m + 1)"
proof -
  from assms have "m = 0 \<or> m = 1 \<or> m = 2 \<or> m = 3 \<or> m = 4 \<or> m = 5 \<or> m = 6 \<or> m = 7
      \<or> m = 8 \<or> m = 9 \<or> m = 10" by arith
  then show ?thesis by (elim disjE) (simp_all add: month_start_def)
qed

lemma MakeDay_next_month:
  assumes "0 \<le> m" "m \<le> 11"
  shows "MakeDay y m dt + 28 \<le> MakeDay y (m + 1) dt"
proof (cases "m = 11")
  case True
  then show ?thesis
    by (simp add: MakeDay_def DayFromYear_Suc month_start_def)
next
  case False
  with assms have m: "0 \<le> m" "m < 11" by auto
  then have "m div 12 = 0" "m mod 12 = m" "(m + 1) div 12 = 0" "(m + 1) mod 12 = m + 1" by auto
  then show ?thesis using month_start_next [OF m, of "InLeapYear y"]
    by (simp add: MakeDay_def)
qed

text \<open>\<open>start.setMonth(start.getMonth() + 1)\<close> moves a date forward, or makes it invalid.\<close>

lemma setMonth_advances:
  assumes "setMonth env (Some t) (getMonth env t + 1) = Some t'"
  shows "t < t'"
proof -
  let ?l = "t + localTZA env"
  have d: "Day ?l = MakeDay (getFullYear env t) (getMonth env t) (getDate env t)"
    by (simp add: getFullYear_def getMonth_def getDate_def MakeDay_fields)
  have l: "?l = MakeDate (Day ?l) (TimeWithinDay ?l)"
    by (simp add: MakeDate_def Day_def TimeWithinDay_def)
  have r: "0 \<le> getMonth env t" "getMonth env t \<le> 11"
    using MonthFromDay_range by (simp_all add: getMonth_def)
  from assms have "t' = MakeDate (MakeDay (getFullYear env t) (getMonth env t + 1) (getDate env t))
      (TimeWithinDay ?l) - localTZA env"
    by (simp add: setMonth_def TimeClip_def split: if_splits)
  moreover have "MakeDate (Day ?l) (TimeWithinDay ?l)
      < MakeDate (MakeDay (getFullYear env t) (getMonth env t + 1) (getDate env t)) (TimeWithinDay ?l)"
    using MakeDay_next_month [OF r, of "getFullYear env t" "getDate env t"] d
    by (simp add: MakeDate_def msPerDay_def)
  ultimately show ?thesis using l by linarith
qed

text \<open>The loop of \<open>getMonthsFromStart\<close> ends: the distance to \<open>now\<close> shrinks at each turn.\<close>

termination months_loop
proof (relation "measure (\<lambda>(env, now, start, months).
          case (start, now) of (Some t, Some n) \<Rightarrow> nat (n - t + 1) | _ \<Rightarrow> 0)")
  show "wf (measure (\<lambda>(env, now, start, months).
          case (start, now) of (Some t, Some n) \<Rightarrow> nat (n - t + 1) | _ \<Rightarrow> 0))" by simp
next
  fix env :: Env and now start :: "int option" and months :: "string list" and t :: int
  assume s: "start = Some t" and le: "date_le start now"
  from s le obtain n where n: "now = Some n" "t \<le> n" by (cases now) auto
  show "((env, now, setMonth env start (getMonth env t + 1),
          months @ [show_int (getFullYear env t) @ ''-'' @ padStart2 (show_int (getMonth env t + 1))]),
         env, now, start, months)
        \<in> measure (\<lambda>(env, now, start, months).
          case (start, now) of (Some t, Some n) \<Rightarrow> nat (n - t + 1) | _ \<Rightarrow> 0)"
  proof (cases "setMonth env (Some t) (getMonth env t + 1)")
    case None
    then show ?thesis using s n by simp
  next
    case (Some t')
    then have "t < t'" by (rule setMonth_advances)
    then show ?thesis using s n Some by simp
  qed
qed

declare months_loop.simps [simp del]

section \<open>Tier selection\<close>

lemma tier_loop_find: "tier_loop c tiers = find (tier_matches c) tiers"
  by (induction tiers) simp_all

lemma at_index_last:
  "at_index tiers (int (length tiers) - 1) = (if tiers = [] then None else Some (last tiers))"
proof (cases "tiers = []")
  case True
  then show ?thesis by (simp add: at_index_def)
next
  case False
  then have "nat (int (length tiers) - 1) = length tiers - 1" by simp
  with False show ?thesis by (simp add: at_index_def last_conv_nth)
qed

lemma determinePortfolioTier_find:
  "determinePortfolioTier c tiers =
    (case find (tier_matches c) tiers of
       Some t \<Rightarrow> Some t
     | None \<Rightarrow> if tiers = [] then None else Some (last tiers))"
  unfolding determinePortfolioTier_def tier_loop_find at_index_last
  by (simp split: option.split)

lemma tier_matches_Num:
  "tier_matches (Num x) t \<longleftrightarrow>
     maxCapacityMW t = None \<or> (\<exists>m. maxCapacityMW t = Some (Num m) \<and> x < m)"
proof (cases "maxCapacityMW t")
  case None
  then show ?thesis by (simp add: tier_matches_def)
next
  case (Some v)
  then show ?thesis by (cases v) (simp_all add: tier_matches_def)
qed

lemma find_app:
  "find P (xs @ ys) = (case find P xs of None \<Rightarrow> find P ys | Some x \<Rightarrow> Some x)"
  by (induction xs) simp_all

text \<open>
  A capacity on the boundary of a tier that no earlier tier takes: the first later
  tier that passes the test takes it, and the last tier of the table when none does.
\<close>

lemma determinePortfolioTier_boundary:
  assumes "maxCapacityMW tier = Some (Num m)"
    and "\<forall>t \<in> set before. \<not> tier_matches (Num m) t"
  shows "determinePortfolioTier (Num m) (before @ tier # after) =
    (case find (tier_matches (Num m)) after of
       Some t \<Rightarrow> Some t
     | None \<Rightarrow> Some (last (tier # after)))"
proof -
  have b: "find (tier_matches (Num m)) before = None"
    using assms(2) by (simp add: find_None_iff)
  have t: "\<not> tier_matches (Num m) tier"
    using assms(1) by (simp add: tier_matches_def)
  show ?thesis
    by (simp add: determinePortfolioTier_find find_app b t split: option.split)
qed

lemma default_tier_defined: "\<exists>t. determinePortfolioTier c DEFAULT_RATE_TIERS = Some t"
  by (simp add: determinePortfolioTier_find DEFAULT_RATE_TIERS_def split: option.split)

lemma find_tier_default:
  "find_tier DEFAULT_RATE_TIERS ''<20MW'' 0 = Some (DEFAULT_RATE_TIERS ! 0)"
  "find_tier DEFAULT_RATE_TIERS ''20-30MW'' 1 = Some (DEFAULT_RATE_TIERS ! 1)"
  "find_tier DEFAULT_RATE_TIERS ''30-40MW'' 2 = Some (DEFAULT_RATE_TIERS ! 2)"
  by (simp_all add: find_tier_def DEFAULT_RATE_TIERS_def)

lemma calculateSiteWithAllTiers_default:
  "\<exists>r. calculateSiteWithAllTiers site DEFAULT_RATE_TIERS = Inr r"
  by (simp add: calculateSiteWithAllTiers_def find_tier_default Let_def)

lemma map_result_total:
  assumes "\<And>x. \<exists>y. f x = Inr y"
  shows "\<exists>ys. map_result f xs = Inr ys"
proof (induction xs)
  case Nil
  show ?case by simp
next
  case (Cons x xs)
  from assms obtain y where "f x = Inr y" by blast
  with Cons show ?case by auto
qed

text \<open>The summary never throws; its tier is the one of the built-in table.\<close>

lemma calculatePortfolioSummary_currentTier:
  "\<exists>r t. calculatePortfolioSummary sites = Inr r
     \<and> contractedCapacityKwp r = sum_systemSize (filter (\<lambda>s. contractStatus s = Yes) sites)
     \<and> determinePortfolioTier (js_div (contractedCapacityKwp r) (Num 1000)) DEFAULT_RATE_TIERS = Some t
     \<and> currentTier r = tierName t"
proof -
  let ?cap = "sum_systemSize (filter (\<lambda>s. contractStatus s = Yes) sites)"
  obtain ys where ys: "map_result (\<lambda>s. calculateSiteWithAllTiers s DEFAULT_RATE_TIERS)
      (filter (\<lambda>s. contractStatus s = Yes) sites) = Inr ys"
    using map_result_total [of "\<lambda>s. calculateSiteWithAllTiers s DEFAULT_RATE_TIERS"]
      calculateSiteWithAllTiers_default by blast
  obtain t where t: "determinePortfolioTier (js_div ?cap (Num 1000)) DEFAULT_RATE_TIERS = Some t"
    using default_tier_defined by blast
  show ?thesis
    by (simp add: calculatePortfolioSummary_def Let_def ys t)
qed

lemma tier_of_25: "determinePortfolioTier (js_div (Num 25000) (Num 1000)) DEFAULT_RATE_TIERS
    = Some (DEFAULT_RATE_TIERS ! 1)"
proof -
  have "js_div (Num 25000) (Num 1000) = Num 25" by (simp add: fl_eval)
  then show ?thesis
    by (simp add: determinePortfolioTier_find DEFAULT_RATE_TIERS_def tier_matches_def)
qed

lemma tier_of_40: "determinePortfolioTier (Num 40) DEFAULT_RATE_TIERS = Some (DEFAULT_RATE_TIERS ! 2)"
  by (simp add: determinePortfolioTier_find DEFAULT_RATE_TIERS_def tier_matches_def)

text \<open>
  Claim C1, as amended. For every tier table \<open>determinePortfolioTier\<close> returns the
  first tier in table order whose \<open>maxCapacityMW\<close> is \<open>null\<close> or strictly above the
  capacity, and the last tier of the table when no tier passes. A capacity equal to
  the \<open>maxCapacityMW\<close> of a tier does not pass that tier: it goes to the first later
  tier that passes and, when none does, to the last tier of the table, which is that
  same tier when it is the last. The portfolio summary takes no tier table: it applies
  the selection with the built-in table to the contracted capacity divided by 1000,
  and contracted sites that total 25 MW give the tier \<open>20-30MW\<close>.
\<close>

theorem C1_current_tier:
  "determinePortfolioTier c tiers =
     (case find (tier_matches c) tiers of
        Some t \<Rightarrow> Some t
      | None \<Rightarrow> if tiers = [] then None else Some (last tiers))
   \<and> (tier_matches (Num x) tier \<longleftrightarrow>
        maxCapacityMW tier = None \<or> (\<exists>m. maxCapacityMW tier = Some (Num m) \<and> x < m))
   \<and> (maxCapacityMW tier = Some (Num b) \<and> (\<forall>t \<in> set before. \<not> tier_matches (Num b) t) \<longrightarrow>
        determinePortfolioTier (Num b) (before @ tier # after) =
          (case find (tier_matches (Num b)) after of
             Some t \<Rightarrow> Some t
           | None \<Rightarrow> Some (last (tier # after))))
   \<and> (\<exists>r t. calculatePortfolioSummary sites = Inr r
        \<and> contractedCapacityKwp r = sum_systemSize (filter (\<lambda>s. contractStatus s = Yes) sites)
        \<and> determinePortfolioTier (js_div (contractedCapacityKwp r) (Num 1000)) DEFAULT_RATE_TIERS = Some t
        \<and> currentTier r = tierName t)
   \<and> (sum_systemSize (filter (\<lambda>s. contractStatus s = Yes) sites) = Num 25000 \<longrightarrow>
        (\<exists>r. calculatePortfolioSummary sites = Inr r \<and> currentTier r = ''20-30MW''))"
proof (intro conjI impI)
  show "determinePortfolioTier c tiers =
     (case find (tier_matches c) tiers of
        Some t \<Rightarrow> Some t
      | None \<Rightarrow> if tiers = [] then None else Some (last tiers))"
    by (rule determinePortfolioTier_find)
  show "tier_matches (Num x) tier \<longleftrightarrow>
        maxCapacityMW tier = None \<or> (\<exists>m. maxCapacityMW tier = Some (Num m) \<and> x < m)"
    by (rule tier_matches_Num)
  show "\<exists>r t. calculatePortfolioSummary sites = Inr r
        \<and> contractedCapacityKwp r = sum_systemSize (filter (\<lambda>s. contractStatus s = Yes) sites)
        \<and> determinePortfolioTier (js_div (contractedCapacityKwp r) (Num 1000)) DEFAULT_RATE_TIERS = Some t
        \<and> currentTier r = tierName t"
    by (rule calculatePortfolioSummary_currentTier)
next
  assume "maxCapacityMW tier = Some (Num b) \<and> (\<forall>t \<in> set before. \<not> tier_matches (Num b) t)"
  then show "determinePortfolioTier (Num b) (before @ tier # after) =
          (case find (tier_matches (Num b)) after of
             Some t \<Rightarrow> Some t
           | None \<Rightarrow> Some (last (tier # after)))"
    using determinePortfolioTier_boundary by blast
next
  assume cap: "sum_systemSize (filter (\<lambda>s. contractStatus s = Yes) sites) = Num 25000"
  obtain r t where r: "calculatePortfolioSummary sites = Inr r"
    "contractedCapacityKwp r = sum_systemSize (filter (\<lambda>s. contractStatus s = Yes) sites)"
    "determinePortfolioTier (js_div (contractedCapacityKwp r) (Num 1000)) DEFAULT_RATE_TIERS = Some t"
    "currentTier r = tierName t"
    using calculatePortfolioSummary_currentTier by blast
  from r(2,3) cap have "t = DEFAULT_RATE_TIERS ! 1"
    by (simp only: tier_of_25) simp
  then have "currentTier r = ''20-30MW''" using r(4) by (simp add: DEFAULT_RATE_TIERS_def)
  with r(1) show "\<exists>r. calculatePortfolioSummary sites = Inr r \<and> currentTier r = ''20-30MW''"
    by blast
qed

lemma example_sum: "sum_systemSize (filter (\<lambda>s. contractStatus s = Yes)
       [example_site, example_site\<lparr>systemSizeKwp := Num 13000\<rparr>,
        example_site\<lparr>contractStatus := No\<rparr>]) = Num 25000"
  by (simp add: sum_systemSize_def example_site_def fl_eval)

theorem C1_current_tier_witness:
  "determinePortfolioTier (Num 20) DEFAULT_RATE_TIERS = Some (DEFAULT_RATE_TIERS ! 1)
   \<and> determinePortfolioTier (Num 30)
        ([DEFAULT_RATE_TIERS ! 0] @ DEFAULT_RATE_TIERS ! 1 # [DEFAULT_RATE_TIERS ! 2])
      = Some (DEFAULT_RATE_TIERS ! 2)
   \<and> determinePortfolioTier (Num 40)
        ([DEFAULT_RATE_TIERS ! 0, DEFAULT_RATE_TIERS ! 1] @ DEFAULT_RATE_TIERS ! 2 # [])
      = Some (DEFAULT_RATE_TIERS ! 2)
   \<and> sum_systemSize (filter (\<lambda>s. contractStatus s = Yes)
       [example_site, example_site\<lparr>systemSizeKwp := Num 13000\<rparr>,
        example_site\<lparr>contractStatus := No\<rparr>]) = Num 25000
   \<and> (\<exists>r. calculatePortfolioSummary
         [example_site, example_site\<lparr>systemSizeKwp := Num 13000\<rparr>,
          example_site\<lparr>contractStatus := No\<rparr>] = Inr r \<and> currentTier r = ''20-30MW'')"
proof -
  let ?s = "[example_site, example_site\<lparr>systemSizeKwp := Num 13000\<rparr>,
        example_site\<lparr>contractStatus := No\<rparr>]"
  have a: "determinePortfolioTier (Num 20) DEFAULT_RATE_TIERS = Some (DEFAULT_RATE_TIERS ! 1)"
    using C1_current_tier [where c = "Num 20" and tiers = DEFAULT_RATE_TIERS, THEN conjunct1]
    by (simp add: DEFAULT_RATE_TIERS_def tier_matches_def)
  have b: "determinePortfolioTier (Num 30)
        ([DEFAULT_RATE_TIERS ! 0] @ DEFAULT_RATE_TIERS ! 1 # [DEFAULT_RATE_TIERS ! 2])
      = Some (DEFAULT_RATE_TIERS ! 2)"
    using C1_current_tier [where b = 30 and tier = "DEFAULT_RATE_TIERS ! 1"
        and before = "[DEFAULT_RATE_TIERS ! 0]" and after = "[DEFAULT_RATE_TIERS ! 2]",
        THEN conjunct2, THEN conjunct2, THEN conjunct1]
    by (simp add: DEFAULT_RATE_TIERS_def tier_matches_def)
  have c: "determinePortfolioTier (Num 40)
        ([DEFAULT_RATE_TIERS ! 0, DEFAULT_RATE_TIERS ! 1] @ DEFAULT_RATE_TIERS ! 2 # [])
      = Some (DEFAULT_RATE_TIERS ! 2)"
    using C1_current_tier [where b = 40 and tier = "DEFAULT_RATE_TIERS ! 2"
        and before = "[DEFAULT_RATE_TIERS ! 0, DEFAULT_RATE_TIERS ! 1]" and after = "[]",
        THEN conjunct2, THEN conjunct2, THEN conjunct1]
    by (simp add: DEFAULT_RATE_TIERS_def tier_matches_def)
  have d: "\<exists>r. calculatePortfolioSummary ?s = Inr r \<and> currentTier r = ''20-30MW''"
    using C1_current_tier [where sites = ?s, THEN conjunct2, THEN conjunct2, THEN conjunct2,
        THEN conjunct2] example_sum
    by blast
  from a b c d example_sum show ?thesis by blast
qed

text \<open>
  The claim as stated puts a capacity on the boundary of a tier in the next tier. The
  boundary of \<open>30-40MW\<close> in the built-in table is 40; a capacity of 40 MW is placed in
  \<open>30-40MW\<close> itself, also by the summary.
\<close>

theorem C1_boundary_tier_counterexample:
  "maxCapacityMW (DEFAULT_RATE_TIERS ! 2) = Some (Num 40)
   \<and> determinePortfolioTier (Num 40) DEFAULT_RATE_TIERS = Some (DEFAULT_RATE_TIERS ! 2)
   \<and> map_sum id currentTier
        (calculatePortfolioSummary [example_site\<lparr>systemSizeKwp := Num 40000\<rparr>])
      = Inr ''30-40MW''"
proof -
  let ?s = "[example_site\<lparr>systemSizeKwp := Num 40000\<rparr>]"
  obtain r t where r: "calculatePortfolioSummary ?s = Inr r"
    "contractedCapacityKwp r = sum_systemSize (filter (\<lambda>s. contractStatus s = Yes) ?s)"
    "determinePortfolioTier (js_div (contractedCapacityKwp r) (Num 1000)) DEFAULT_RATE_TIERS = Some t"
    "currentTier r = tierName t"
    using calculatePortfolioSummary_currentTier [of ?s] by blast
  have "sum_systemSize (filter (\<lambda>s. contractStatus s = Yes) ?s) = Num 40000"
    by (simp add: sum_systemSize_def example_site_def fl_eval)
  moreover have "js_div (Num 40000) (Num 1000) = Num 40" by (simp add: fl_eval)
  ultimately have "t = DEFAULT_RATE_TIERS ! 2" using r(2,3) by (simp add: tier_of_40)
  then have "currentTier r = ''30-40MW''" using r(4) by (simp add: DEFAULT_RATE_TIERS_def)
  then show ?thesis using r(1) by (simp add: tier_of_40) (simp add: DEFAULT_RATE_TIERS_def)
qed

section \<open>Site fee calculator\<close>

text \<open>What \<open>calculateSiteWithAllTiers\<close> returns, field by field.\<close>

lemma calculateSiteWithAllTiers_fields:
  assumes "calculateSiteWithAllTiers site tiers = Inr r"
  shows "\<exists>t20 t30 t40.
      find_tier tiers ''<20MW'' 0 = Some t20
    \<and> find_tier tiers ''20-30MW'' 1 = Some t30
    \<and> find_tier tiers ''30-40MW'' 2 = Some t40
    \<and> Site.truncate r = site
    \<and> siteFixedCosts r = calculateSiteFixedCosts site
    \<and> portfolioCost_20MW r = calculatePortfolioCost (systemSizeKwp site) (ratePerKwp t20)
    \<and> portfolioCost_30MW r = calculatePortfolioCost (systemSizeKwp site) (ratePerKwp t30)
    \<and> portfolioCost_40MW r = calculatePortfolioCost (systemSizeKwp site) (ratePerKwp t40)
    \<and> fixedFee_20MW r = calculateFixedFee (siteFixedCosts r) (portfolioCost_20MW r)
    \<and> fixedFee_30MW r = calculateFixedFee (siteFixedCosts r) (portfolioCost_30MW r)
    \<and> fixedFee_40MW r = calculateFixedFee (siteFixedCosts r) (portfolioCost_40MW r)
    \<and> feePerKwp_20MW r
        = calculateFeePerKwp (fixedFee_20MW r) (systemSizeKwp site) (contractStatus site = Yes)
    \<and> feePerKwp_30MW r
        = calculateFeePerKwp (fixedFee_30MW r) (systemSizeKwp site) (contractStatus site = Yes)
    \<and> feePerKwp_40MW r
        = calculateFeePerKwp (fixedFee_40MW r) (systemSizeKwp site) (contractStatus site = Yes)
    \<and> monthlyFee r
        = (if contractStatus site = Yes then calculateMonthlyFee (fixedFee_20MW r) else Num 0)"
proof -
  from assms obtain t20 t30 t40 where
    t: "find_tier tiers ''<20MW'' 0 = Some t20" "find_tier tiers ''20-30MW'' 1 = Some t30"
       "find_tier tiers ''30-40MW'' 2 = Some t40"
    by (auto simp: calculateSiteWithAllTiers_def Let_def split: option.splits)
  from assms have "r = Site.extend site (SiteWithCalculations.fields
        (calculateSiteFixedCosts site)
        (calculatePortfolioCost (systemSizeKwp site) (ratePerKwp t20))
        (calculatePortfolioCost (systemSizeKwp site) (ratePerKwp t30))
        (calculatePortfolioCost (systemSizeKwp site) (ratePerKwp t40))
        (calculateFixedFee (calculateSiteFixedCosts site)
           (calculatePortfolioCost (systemSizeKwp site) (ratePerKwp t20)))
        (calculateFixedFee (calculateSiteFixedCosts site)
           (calculatePortfolioCost (systemSizeKwp site) (ratePerKwp t30)))
        (calculateFixedFee (calculateSiteFixedCosts site)
           (calculatePortfolioCost (systemSizeKwp site) (ratePerKwp t40)))
        (calculateFeePerKwp (calculateFixedFee (calculateSiteFixedCosts site)
           (calculatePortfolioCost (systemSizeKwp site) (ratePerKwp t20)))
           (systemSizeKwp site) (contractStatus site = Yes))
        (calculateFeePerKwp (calculateFixedFee (calculateSiteFixedCosts site)
           (calculatePortfolioCost (systemSizeKwp site) (ratePerKwp t30)))
           (systemSizeKwp site) (contractStatus site = Yes))
        (calculateFeePerKwp (calculateFixedFee (calculateSiteFixedCosts site)
           (calculatePortfolioCost (systemSizeKwp site) (ratePerKwp t40)))
           (systemSizeKwp site) (contractStatus site = Yes))
        (if contractStatus site = Yes
         then calculateMonthlyFee (calculateFixedFee (calculateSiteFixedCosts site)
           (calculatePortfolioCost (systemSizeKwp site) (ratePerKwp t20)))
         else Num 0))"
    by (simp add: calculateSiteWithAllTiers_def Let_def t)
  then have "Site.truncate r = site"
    "siteFixedCosts r = calculateSiteFixedCosts site"
    "portfolioCost_20MW r = calculatePortfolioCost (systemSizeKwp site) (ratePerKwp t20)"
    "portfolioCost_30MW r = calculatePortfolioCost (systemSizeKwp site) (ratePerKwp t30)"
    "portfolioCost_40MW r = calculatePortfolioCost (systemSizeKwp site) (ratePerKwp t40)"
    "fixedFee_20MW r = calculateFixedFee (siteFixedCosts r) (portfolioCost_20MW r)"
    "fixedFee_30MW r = calculateFixedFee (siteFixedCosts r) (portfolioCost_30MW r)"
    "fixedFee_40MW r = calculateFixedFee (siteFixedCosts r) (portfolioCost_40MW r)"
    "feePerKwp_20MW r
        = calculateFeePerKwp (fixedFee_20MW r) (systemSizeKwp site) (contractStatus site = Yes)"
    "feePerKwp_30MW r
        = calculateFeePerKwp (fixedFee_30MW r) (systemSizeKwp site) (contractStatus site = Yes)"
    "feePerKwp_40MW r
        = calculateFeePerKwp (fixedFee_40MW r) (systemSizeKwp site) (contractStatus site = Yes)"
    "monthlyFee r
        = (if contractStatus site = Yes then calculateMonthlyFee (fixedFee_20MW r) else Num 0)"
    by (simp_all add: Site.extend_def Site.truncate_def SiteWithCalculations.fields_def)
  with t show ?thesis by blast
qed

lemma calculateFeePerKwp_Num:
  assumes "0 \<le> sz"
  shows "calculateFeePerKwp fee (Num sz) c = (if c \<and> 0 < sz then js_div fee (Num sz) else Num 0)"
  using assms by (auto simp: calculateFeePerKwp_def)

text \<open>
  Claim C2. For a system size \<open>sz \<ge> 0\<close>, the fee per kWp of a tier is the fixed fee of
  that tier divided by the system size when the site is contracted and \<open>sz > 0\<close>, and
  exactly \<open>0\<close> otherwise. The quotient is the double quotient by a positive divisor:
  the division by zero, which the model turns into \<open>NaN\<close>, is never taken.
\<close>

theorem C2_fee_per_kwp:
  assumes "0 \<le> sz"
  shows "calculateFeePerKwp (Num fee) (Num sz) c
           = (if c \<and> 0 < sz then Num (fl (fee / sz)) else Num 0)
    \<and> (systemSizeKwp site = Num sz \<and> calculateSiteWithAllTiers site tiers = Inr r \<longrightarrow>
         feePerKwp_20MW r = (if contractStatus site = Yes \<and> 0 < sz
                             then js_div (fixedFee_20MW r) (Num sz) else Num 0)
       \<and> feePerKwp_30MW r = (if contractStatus site = Yes \<and> 0 < sz
                             then js_div (fixedFee_30MW r) (Num sz) else Num 0)
       \<and> feePerKwp_40MW r = (if contractStatus site = Yes \<and> 0 < sz
                             then js_div (fixedFee_40MW r) (Num sz) else Num 0))"
proof (intro conjI impI)
  show "calculateFeePerKwp (Num fee) (Num sz) c
           = (if c \<and> 0 < sz then Num (fl (fee / sz)) else Num 0)"
    using assms by (simp add: calculateFeePerKwp_Num)
next
  assume a: "systemSizeKwp site = Num sz \<and> calculateSiteWithAllTiers site tiers = Inr r"
  then have f: "feePerKwp_20MW r
        = calculateFeePerKwp (fixedFee_20MW r) (Num sz) (contractStatus site = Yes)"
    "feePerKwp_30MW r
        = calculateFeePerKwp (fixedFee_30MW r) (Num sz) (contractStatus site = Yes)"
    "feePerKwp_40MW r
        = calculateFeePerKwp (fixedFee_40MW r) (Num sz) (contractStatus site = Yes)"
    using calculateSiteWithAllTiers_fields [of site tiers r] by auto
  show "feePerKwp_20MW r = (if contractStatus site = Yes \<and> 0 < sz
                             then js_div (fixedFee_20MW r) (Num sz) else Num 0)"
    by (simp only: f calculateFeePerKwp_Num [OF assms])
  show "feePerKwp_30MW r = (if contractStatus site = Yes \<and> 0 < sz
                             then js_div (fixedFee_30MW r) (Num sz) else Num 0)"
    by (simp only: f calculateFeePerKwp_Num [OF assms])
  show "feePerKwp_40MW r = (if contractStatus site = Yes \<and> 0 < sz
                             then js_div (fixedFee_40MW r) (Num sz) else Num 0)"
    by (simp only: f calculateFeePerKwp_Num [OF assms])
qed

text \<open>The fixed costs and the base fee of the example site.\<close>

lemma example_fixed_costs: "calculateSiteFixedCosts example_site = Num 750"
  by (simp add: calculateSiteFixedCosts_def example_site_def fl_eval)

lemma example_fixed_fee:
  "calculateFixedFee (Num 750) (calculatePortfolioCost (Num 12000) (Num 2)) = Num 24750"
  "calculateFixedFee (Num 750) (calculatePortfolioCost (Num 12000) (Num (5 / 2))) = Num 30750"
  by (simp_all add: calculateFixedFee_def calculatePortfolioCost_def fl_eval)

theorem C2_fee_per_kwp_witness:
  "(0::real) \<le> 12000
   \<and> calculateFeePerKwp (Num 24750) (Num 12000) True = Num (33 / 16)
   \<and> calculateFeePerKwp (Num 24750) (Num 0) True = Num 0
   \<and> systemSizeKwp example_site = Num 12000
   \<and> (\<exists>r. calculateSiteWithAllTiers example_site DEFAULT_RATE_TIERS = Inr r
        \<and> feePerKwp_20MW r = js_div (fixedFee_20MW r) (Num 12000))"
proof -
  obtain r where r: "calculateSiteWithAllTiers example_site DEFAULT_RATE_TIERS = Inr r"
    using calculateSiteWithAllTiers_default by blast
  have s: "systemSizeKwp example_site = Num 12000" "contractStatus example_site = Yes"
    by (simp_all add: example_site_def)
  have "feePerKwp_20MW r = js_div (fixedFee_20MW r) (Num 12000)"
    using C2_fee_per_kwp [of 12000 24750 True example_site DEFAULT_RATE_TIERS r] r s by simp
  moreover have "calculateFeePerKwp (Num 24750) (Num 12000) True = Num (fl (24750 / 12000))"
    using C2_fee_per_kwp [of 12000 24750 True example_site DEFAULT_RATE_TIERS r] by simp
  then have "calculateFeePerKwp (Num 24750) (Num 12000) True = Num (33 / 16)"
    by (simp add: fl_eval)
  moreover have "calculateFeePerKwp (Num 24750) (Num 0) True = Num 0"
    using C2_fee_per_kwp [of 0 24750 True example_site DEFAULT_RATE_TIERS r] by simp
  ultimately show ?thesis using r s by simp
qed

text \<open>
  The tier that prices the monthly fee: the first tier named \<open><20MW\<close>, and the first
  tier of the table only when no tier has that name.
\<close>

lemma find_tier_20MW:
  "find_tier tiers ''<20MW'' 0 =
     (case find (\<lambda>t. tierName t = ''<20MW'') tiers of
        Some t \<Rightarrow> Some t
      | None \<Rightarrow> if tiers = [] then None else Some (hd tiers))"
  by (cases tiers) (simp_all add: find_tier_def at_index_def split: option.split)

text \<open>
  Claim C3, as amended. Whenever the calculator returns, the monthly fee is the fixed fee
  at the tier named \<open><20MW\<close> (at the first tier of the table when no tier has that
  name) divided by 12 for a contracted site, and exactly \<open>0\<close> for a site that is not
  contracted.
\<close>

theorem C3_monthly_fee:
  assumes "calculateSiteWithAllTiers site tiers = Inr r"
  shows "\<exists>t. (case find (\<lambda>t. tierName t = ''<20MW'') tiers of
               Some t' \<Rightarrow> t = t'
             | None \<Rightarrow> tiers \<noteq> [] \<and> t = hd tiers)
     \<and> fixedFee_20MW r = calculateFixedFee (calculateSiteFixedCosts site)
                            (calculatePortfolioCost (systemSizeKwp site) (ratePerKwp t))
     \<and> monthlyFee r = (if contractStatus site = Yes then js_div (fixedFee_20MW r) (Num 12)
                       else Num 0)"
proof -
  from calculateSiteWithAllTiers_fields [OF assms] obtain t where
    t: "find_tier tiers ''<20MW'' 0 = Some t"
    and f: "fixedFee_20MW r = calculateFixedFee (calculateSiteFixedCosts site)
                            (calculatePortfolioCost (systemSizeKwp site) (ratePerKwp t))"
    and m: "monthlyFee r
        = (if contractStatus site = Yes then calculateMonthlyFee (fixedFee_20MW r) else Num 0)"
    by auto
  from t have "case find (\<lambda>t. tierName t = ''<20MW'') tiers of
               Some t' \<Rightarrow> t = t'
             | None \<Rightarrow> tiers \<noteq> [] \<and> t = hd tiers"
    by (auto simp: find_tier_20MW split: option.splits if_splits)
  with f m show ?thesis by (auto simp: calculateMonthlyFee_def)
qed

lemma example_site_example_tiers:
  "\<exists>r. calculateSiteWithAllTiers example_site example_tiers = Inr r"
  by (simp add: calculateSiteWithAllTiers_def find_tier_def example_tiers_def at_index_def Let_def)

theorem C3_monthly_fee_witness:
  "\<exists>r. calculateSiteWithAllTiers example_site example_tiers = Inr r
     \<and> find (\<lambda>t. tierName t = ''<20MW'') example_tiers = Some (example_tiers ! 1)
     \<and> fixedFee_20MW r = Num 24750 \<and> monthlyFee r = Num (4125 / 2)"
proof -
  obtain r where r: "calculateSiteWithAllTiers example_site example_tiers = Inr r"
    using example_site_example_tiers by blast
  have f: "find (\<lambda>t. tierName t = ''<20MW'') example_tiers = Some (example_tiers ! 1)"
    by (simp add: example_tiers_def)
  have s: "systemSizeKwp example_site = Num 12000" "contractStatus example_site = Yes"
    "ratePerKwp (example_tiers ! 1) = Num 2"
    by (simp_all add: example_site_def example_tiers_def)
  from C3_monthly_fee [OF r] f
  have "fixedFee_20MW r = calculateFixedFee (calculateSiteFixedCosts example_site)
          (calculatePortfolioCost (systemSizeKwp example_site) (ratePerKwp (example_tiers ! 1)))"
    and m: "monthlyFee r = (if contractStatus example_site = Yes
          then js_div (fixedFee_20MW r) (Num 12) else Num 0)"
    by auto
  then have a: "fixedFee_20MW r = Num 24750"
    by (simp only: s example_fixed_costs example_fixed_fee)
  have "js_div (Num 24750) (Num 12) = Num (4125 / 2)" by (simp add: fl_eval)
  with m a s have "monthlyFee r = Num (4125 / 2)" by simp
  with r f a show ?thesis by blast
qed

text \<open>
  The claim as stated prices the monthly fee at the first tier of every table. In
  \<open>example_tiers\<close> the lowest band is \<open><10MW\<close>; the monthly fee of the example site is
  still priced at the tier named \<open><20MW\<close>: 2062.5, against 2562.5 at the first tier.
\<close>

theorem C3_first_tier_counterexample:
  "map_sum id monthlyFee (calculateSiteWithAllTiers example_site example_tiers)
     = Inr (Num (4125 / 2))
   \<and> contractStatus example_site = Yes
   \<and> js_div (calculateFixedFee (calculateSiteFixedCosts example_site)
        (calculatePortfolioCost (systemSizeKwp example_site) (ratePerKwp (hd example_tiers))))
        (Num 12) = Num (5125 / 2)"
proof -
  obtain r where r: "calculateSiteWithAllTiers example_site example_tiers = Inr r"
    using example_site_example_tiers by blast
  from calculateSiteWithAllTiers_fields [OF r] obtain t where
    t: "find_tier example_tiers ''<20MW'' 0 = Some t"
    and f: "fixedFee_20MW r = calculateFixedFee (siteFixedCosts r) (portfolioCost_20MW r)"
      "siteFixedCosts r = calculateSiteFixedCosts example_site"
      "portfolioCost_20MW r = calculatePortfolioCost (systemSizeKwp example_site) (ratePerKwp t)"
      "monthlyFee r = (if contractStatus example_site = Yes
          then calculateMonthlyFee (fixedFee_20MW r) else Num 0)"
    by auto
  from t have "t = example_tiers ! 1" by (simp add: find_tier_def example_tiers_def)
  then have rt: "ratePerKwp t = Num 2" by (simp add: example_tiers_def)
  have s: "systemSizeKwp example_site = Num 12000" "contractStatus example_site = Yes"
    "ratePerKwp (hd example_tiers) = Num (5 / 2)"
    by (simp_all add: example_site_def example_tiers_def)
  have "fixedFee_20MW r = Num 24750"
    by (simp only: f rt s example_fixed_costs example_fixed_fee)
  moreover have "js_div (Num 24750) (Num 12) = Num (4125 / 2)" by (simp add: fl_eval)
  ultimately have m: "monthlyFee r = Num (4125 / 2)"
    using f(4) s(2) by (simp add: calculateMonthlyFee_def)
  have "js_div (Num 30750) (Num 12) = Num (5125 / 2)" by (simp add: fl_eval)
  then have "js_div (calculateFixedFee (calculateSiteFixedCosts example_site)
        (calculatePortfolioCost (systemSizeKwp example_site) (ratePerKwp (hd example_tiers))))
        (Num 12) = Num (5125 / 2)"
    by (simp only: s example_fixed_costs example_fixed_fee)
  with m r s(2) show ?thesis by simp
qed

section \<open>Missing inputs\<close>

lemma js_add_NaN [simp]: "js_add NaN x = NaN" "js_add x NaN = NaN"
  "js_add Undefined x = NaN" "js_add x Undefined = NaN"
  by (cases x; simp)+

lemma js_mul_NaN [simp]: "js_mul NaN x = NaN" "js_mul x NaN = NaN"
  "js_mul Undefined x = NaN" "js_mul x Undefined = NaN"
  by (cases x; simp)+

lemma js_div_NaN [simp]: "js_div NaN x = NaN" "js_div x NaN = NaN"
  "js_div Undefined x = NaN" "js_div x Undefined = NaN"
  by (cases x; simp)+

lemma js_sub_NaN [simp]: "js_sub NaN x = NaN" "js_sub x NaN = NaN"
  "js_sub Undefined x = NaN" "js_sub x Undefined = NaN"
  by (cases x; simp)+

text \<open>
  Claim C7, as amended. With the built-in tier table the calculator never throws. A
  missing numeric input is not replaced by zero: a missing cost makes \<open>siteFixedCosts\<close>
  and every fixed fee \<open>NaN\<close>; a missing system size makes every portfolio cost and fixed
  fee \<open>NaN\<close> and, for a contracted site, every fee per kWp and the monthly fee. When
  the four inputs are numbers, the fixed costs and fixed fees are the numbers of the
  formulas, each operation rounded to a double.
\<close>

theorem C7_missing_inputs:
  "\<exists>r. calculateSiteWithAllTiers site DEFAULT_RATE_TIERS = Inr r
     \<and> (pmCost site = Undefined \<or> cctvCost site = Undefined \<or> cleaningCost site = Undefined \<longrightarrow>
          siteFixedCosts r = NaN \<and> fixedFee_20MW r = NaN \<and> fixedFee_30MW r = NaN
          \<and> fixedFee_40MW r = NaN)
     \<and> (systemSizeKwp site = Undefined \<longrightarrow>
          portfolioCost_20MW r = NaN \<and> portfolioCost_30MW r = NaN \<and> portfolioCost_40MW r = NaN
          \<and> fixedFee_20MW r = NaN \<and> fixedFee_30MW r = NaN \<and> fixedFee_40MW r = NaN
          \<and> (contractStatus site = Yes \<longrightarrow>
               feePerKwp_20MW r = NaN \<and> feePerKwp_30MW r = NaN \<and> feePerKwp_40MW r = NaN
               \<and> monthlyFee r = NaN))
     \<and> (\<forall>pm cc cl sz. pmCost site = Num pm \<and> cctvCost site = Num cc \<and> cleaningCost site = Num cl
          \<and> systemSizeKwp site = Num sz \<longrightarrow>
          siteFixedCosts r = Num (fl (fl (pm + cc) + cl))
          \<and> fixedFee_20MW r = Num (fl (fl (fl (pm + cc) + cl) + fl (sz * 2)))
          \<and> fixedFee_30MW r = Num (fl (fl (fl (pm + cc) + cl) + fl (sz * fl (18 / 10))))
          \<and> fixedFee_40MW r = Num (fl (fl (fl (pm + cc) + cl) + fl (sz * fl (17 / 10)))))"
proof -
  obtain r where r: "calculateSiteWithAllTiers site DEFAULT_RATE_TIERS = Inr r"
    using calculateSiteWithAllTiers_default by blast
  from calculateSiteWithAllTiers_fields [OF r] find_tier_default
  have f: "siteFixedCosts r = calculateSiteFixedCosts site"
    "portfolioCost_20MW r = calculatePortfolioCost (systemSizeKwp site) (Num 2)"
    "portfolioCost_30MW r = calculatePortfolioCost (systemSizeKwp site) (Num (fl (18 / 10)))"
    "portfolioCost_40MW r = calculatePortfolioCost (systemSizeKwp site) (Num (fl (17 / 10)))"
    "fixedFee_20MW r = calculateFixedFee (siteFixedCosts r) (portfolioCost_20MW r)"
    "fixedFee_30MW r = calculateFixedFee (siteFixedCosts r) (portfolioCost_30MW r)"
    "fixedFee_40MW r = calculateFixedFee (siteFixedCosts r) (portfolioCost_40MW r)"
    "feePerKwp_20MW r
        = calculateFeePerKwp (fixedFee_20MW r) (systemSizeKwp site) (contractStatus site = Yes)"
    "feePerKwp_30MW r
        = calculateFeePerKwp (fixedFee_30MW r) (systemSizeKwp site) (contractStatus site = Yes)"
    "feePerKwp_40MW r
        = calculateFeePerKwp (fixedFee_40MW r) (systemSizeKwp site) (contractStatus site = Yes)"
    "monthlyFee r
        = (if contractStatus site = Yes then calculateMonthlyFee (fixedFee_20MW r) else Num 0)"
    by (auto simp: DEFAULT_RATE_TIERS_def)
  have a: "pmCost site = Undefined \<or> cctvCost site = Undefined \<or> cleaningCost site = Undefined \<longrightarrow>
          siteFixedCosts r = NaN \<and> fixedFee_20MW r = NaN \<and> fixedFee_30MW r = NaN
          \<and> fixedFee_40MW r = NaN"
    by (auto simp: f calculateSiteFixedCosts_def calculateFixedFee_def)
  have b: "systemSizeKwp site = Undefined \<longrightarrow>
          portfolioCost_20MW r = NaN \<and> portfolioCost_30MW r = NaN \<and> portfolioCost_40MW r = NaN
          \<and> fixedFee_20MW r = NaN \<and> fixedFee_30MW r = NaN \<and> fixedFee_40MW r = NaN
          \<and> (contractStatus site = Yes \<longrightarrow>
               feePerKwp_20MW r = NaN \<and> feePerKwp_30MW r = NaN \<and> feePerKwp_40MW r = NaN
               \<and> monthlyFee r = NaN)"
    by (simp add: f calculatePortfolioCost_def calculateFixedFee_def calculateFeePerKwp_def
        calculateMonthlyFee_def)
  have c: "\<forall>pm cc cl sz. pmCost site = Num pm \<and> cctvCost site = Num cc \<and> cleaningCost site = Num cl
          \<and> systemSizeKwp site = Num sz \<longrightarrow>
          siteFixedCosts r = Num (fl (fl (pm + cc) + cl))
          \<and> fixedFee_20MW r = Num (fl (fl (fl (pm + cc) + cl) + fl (sz * 2)))
          \<and> fixedFee_30MW r = Num (fl (fl (fl (pm + cc) + cl) + fl (sz * fl (18 / 10))))
          \<and> fixedFee_40MW r = Num (fl (fl (fl (pm + cc) + cl) + fl (sz * fl (17 / 10))))"
    by (simp add: f calculateSiteFixedCosts_def calculatePortfolioCost_def calculateFixedFee_def)
  from r a b c show ?thesis by blast
qed

theorem C7_missing_inputs_witness:
  "\<exists>r. calculateSiteWithAllTiers (example_site\<lparr>pmCost := Undefined\<rparr>) DEFAULT_RATE_TIERS = Inr r
     \<and> pmCost (example_site\<lparr>pmCost := Undefined\<rparr>) = Undefined
     \<and> siteFixedCosts r = NaN \<and> fixedFee_20MW r = NaN"
  using C7_missing_inputs [of "example_site\<lparr>pmCost := Undefined\<rparr>"] by auto

text \<open>
  The claim as stated: a record without \<open>pmCost\<close> gives the result of the record with
  \<open>pmCost = 0\<close>. The fixed costs of the two differ.
\<close>

theorem C7_zero_counterexample:
  "map_sum id siteFixedCosts
     (calculateSiteWithAllTiers (example_site\<lparr>pmCost := Undefined\<rparr>) DEFAULT_RATE_TIERS) = Inr NaN
   \<and> map_sum id siteFixedCosts
     (calculateSiteWithAllTiers (example_site\<lparr>pmCost := Num 0\<rparr>) DEFAULT_RATE_TIERS)
       = Inr (Num 150)"
proof -
  obtain r where r: "calculateSiteWithAllTiers (example_site\<lparr>pmCost := Undefined\<rparr>)
      DEFAULT_RATE_TIERS = Inr r"
    using calculateSiteWithAllTiers_default by blast
  obtain r0 where r0: "calculateSiteWithAllTiers (example_site\<lparr>pmCost := Num 0\<rparr>)
      DEFAULT_RATE_TIERS = Inr r0"
    using calculateSiteWithAllTiers_default by blast
  from calculateSiteWithAllTiers_fields [OF r]
  have "siteFixedCosts r = calculateSiteFixedCosts (example_site\<lparr>pmCost := Undefined\<rparr>)"
    by blast
  then have a: "siteFixedCosts r = NaN" by (simp add: calculateSiteFixedCosts_def)
  from calculateSiteWithAllTiers_fields [OF r0]
  have "siteFixedCosts r0 = calculateSiteFixedCosts (example_site\<lparr>pmCost := Num 0\<rparr>)"
    by blast
  then have b: "siteFixedCosts r0 = Num 150"
    by (simp add: calculateSiteFixedCosts_def example_site_def fl_eval)
  from a b show ?thesis by (simp add: r r0)
qed

section \<open>The default tier table\<close>

lemma tier_loop_default:
  "tier_loop (Num c) DEFAULT_RATE_TIERS =
     (if c < 20 then Some (DEFAULT_RATE_TIERS ! 0)
      else if c < 30 then Some (DEFAULT_RATE_TIERS ! 1)
      else if c < 40 then Some (DEFAULT_RATE_TIERS ! 2) else None)"
  by (simp add: DEFAULT_RATE_TIERS_def tier_matches_def)

text \<open>
  Claim C9, as amended. The built-in table is ordered by increasing capacity and has no
  gaps (each band starts where the one before ends, the first at 0), and no tier of it
  is unbounded: the last band ends at 40. The loop finds a tier exactly for capacities
  below 40, the one whose band holds the capacity; from 40 on the fallback is reached
  and returns the last tier, \<open>30-40MW\<close>.
\<close>

theorem C9_default_tiers:
  "map minCapacityMW DEFAULT_RATE_TIERS = [Num 0, Num 20, Num 30]
   \<and> map maxCapacityMW DEFAULT_RATE_TIERS = [Some (Num 20), Some (Num 30), Some (Num 40)]
   \<and> (tier_loop (Num c) DEFAULT_RATE_TIERS = None \<longleftrightarrow> 40 \<le> c)
   \<and> (0 \<le> c \<and> c < 40 \<longrightarrow>
        (\<exists>t lo hi. determinePortfolioTier (Num c) DEFAULT_RATE_TIERS = Some t
           \<and> tier_loop (Num c) DEFAULT_RATE_TIERS = Some t
           \<and> minCapacityMW t = Num lo \<and> maxCapacityMW t = Some (Num hi) \<and> lo \<le> c \<and> c < hi))
   \<and> (40 \<le> c \<longrightarrow>
        determinePortfolioTier (Num c) DEFAULT_RATE_TIERS = Some (last DEFAULT_RATE_TIERS)
        \<and> tierName (last DEFAULT_RATE_TIERS) = ''30-40MW'')"
proof (intro conjI impI)
  show "map minCapacityMW DEFAULT_RATE_TIERS = [Num 0, Num 20, Num 30]"
    by (simp add: DEFAULT_RATE_TIERS_def)
  show "map maxCapacityMW DEFAULT_RATE_TIERS = [Some (Num 20), Some (Num 30), Some (Num 40)]"
    by (simp add: DEFAULT_RATE_TIERS_def)
  show "tier_loop (Num c) DEFAULT_RATE_TIERS = None \<longleftrightarrow> 40 \<le> c"
    by (auto simp: tier_loop_default)
next
  assume c: "0 \<le> c \<and> c < 40"
  consider "c < 20" | "20 \<le> c" "c < 30" | "30 \<le> c" "c < 40" using c by linarith
  then show "\<exists>t lo hi. determinePortfolioTier (Num c) DEFAULT_RATE_TIERS = Some t
           \<and> tier_loop (Num c) DEFAULT_RATE_TIERS = Some t
           \<and> minCapacityMW t = Num lo \<and> maxCapacityMW t = Some (Num hi) \<and> lo \<le> c \<and> c < hi"
  proof cases
    case 1
    with c show ?thesis
      by (simp add: determinePortfolioTier_def tier_loop_default) (simp add: DEFAULT_RATE_TIERS_def)
  next
    case 2
    then show ?thesis
      by (simp add: determinePortfolioTier_def tier_loop_default) (simp add: DEFAULT_RATE_TIERS_def)
  next
    case 3
    then show ?thesis
      by (simp add: determinePortfolioTier_def tier_loop_default) (simp add: DEFAULT_RATE_TIERS_def)
  qed
next
  assume "40 \<le> c"
  then show "determinePortfolioTier (Num c) DEFAULT_RATE_TIERS = Some (last DEFAULT_RATE_TIERS)"
    by (simp add: determinePortfolioTier_def tier_loop_default) (simp add: DEFAULT_RATE_TIERS_def at_index_def)
  show "tierName (last DEFAULT_RATE_TIERS) = ''30-40MW''"
    by (simp add: DEFAULT_RATE_TIERS_def)
qed

theorem C9_default_tiers_witness:
  "(0::real) \<le> 25 \<and> (25::real) < 40
   \<and> map_option tierName (determinePortfolioTier (Num 25) DEFAULT_RATE_TIERS) = Some ''20-30MW''
   \<and> (40::real) \<le> 45
   \<and> map_option tierName (determinePortfolioTier (Num 45) DEFAULT_RATE_TIERS) = Some ''30-40MW''
   \<and> tier_loop (Num 45) DEFAULT_RATE_TIERS = None"
proof -
  from C9_default_tiers [of 25] obtain t where
    t: "determinePortfolioTier (Num 25) DEFAULT_RATE_TIERS = Some t"
       "tier_loop (Num 25) DEFAULT_RATE_TIERS = Some t"
    by auto
  from t(2) have "t = DEFAULT_RATE_TIERS ! 1" by (simp add: tier_loop_default)
  then have "tierName t = ''20-30MW''" by (simp add: DEFAULT_RATE_TIERS_def)
  with t(1) have a: "map_option tierName (determinePortfolioTier (Num 25) DEFAULT_RATE_TIERS)
      = Some ''20-30MW''" by simp
  from C9_default_tiers [of 45]
  have b: "map_option tierName (determinePortfolioTier (Num 45) DEFAULT_RATE_TIERS)
      = Some ''30-40MW''" and c: "tier_loop (Num 45) DEFAULT_RATE_TIERS = None"
    by simp_all
  from a b c show ?thesis by simp
qed

text \<open>
  The claim as stated: one tier of the built-in table has \<open>maxCapacityMW = null\<close> and the
  fallback is unreachable. No tier has, and a capacity of 40 MW reaches the fallback.
\<close>

theorem C9_unbounded_tier_counterexample:
  "count_list (map maxCapacityMW DEFAULT_RATE_TIERS) None = 0
   \<and> tier_loop (Num 40) DEFAULT_RATE_TIERS = None
   \<and> determinePortfolioTier (Num 40) DEFAULT_RATE_TIERS = Some (last DEFAULT_RATE_TIERS)"
  by (simp add: determinePortfolioTier_def tier_loop_default)
     (simp add: DEFAULT_RATE_TIERS_def at_index_def)

section \<open>The fields of the site are carried over\<close>

lemma truncate_fields:
  "site_id (Site.truncate r) = site_id r" "site_name (Site.truncate r) = site_name r"
  "systemSizeKwp (Site.truncate r) = systemSizeKwp r" "siteType (Site.truncate r) = siteType r"
  "contractStatus (Site.truncate r) = contractStatus r"
  "onboardDate (Site.truncate r) = onboardDate r"
  "pmCost (Site.truncate r) = pmCost r" "cctvCost (Site.truncate r) = cctvCost r"
  "cleaningCost (Site.truncate r) = cleaningCost r"
  "spvId (Site.truncate r) = spvId r" "spvCode (Site.truncate r) = spvCode r"
  "sourceSheet (Site.truncate r) = sourceSheet r" "sourceRow (Site.truncate r) = sourceRow r"
  "createdAt (Site.truncate r) = createdAt r" "updatedAt (Site.truncate r) = updatedAt r"
  by (simp_all add: Site.truncate_def)

text \<open>What a successful call on the heap leaves behind.\<close>

lemma calculateSiteWithAllTiers_heap_Inr:
  assumes "calculateSiteWithAllTiers_heap heap a tiers = Inr (b, heap')"
  shows "\<exists>s c. site_at heap a = Some s \<and> calculateSiteWithAllTiers s tiers = Inr c
    \<and> b = length heap \<and> heap' = heap @ [Calc_object c]"
  using assms
  by (auto simp: calculateSiteWithAllTiers_heap_def split: option.splits sum.splits)

text \<open>
  Claim C10. The record that \<open>calculateSiteWithAllTiers\<close> returns has every field of
  the site unchanged: cut back to the fields of \<open>Site\<close> it is the site itself. On the
  heap, a call that returns leaves every object that existed as it was, the object of
  the site included, and its result is a new object, with the fields of the site and
  the derived fields.
\<close>

theorem C10_site_fields_kept:
  "(calculateSiteWithAllTiers site tiers = Inr r \<longrightarrow>
      Site.truncate r = site
    \<and> site_id r = site_id site \<and> site_name r = site_name site
    \<and> systemSizeKwp r = systemSizeKwp site \<and> siteType r = siteType site
    \<and> contractStatus r = contractStatus site \<and> onboardDate r = onboardDate site
    \<and> pmCost r = pmCost site \<and> cctvCost r = cctvCost site \<and> cleaningCost r = cleaningCost site
    \<and> spvId r = spvId site \<and> spvCode r = spvCode site
    \<and> sourceSheet r = sourceSheet site \<and> sourceRow r = sourceRow site
    \<and> createdAt r = createdAt site \<and> updatedAt r = updatedAt site)
   \<and> (calculateSiteWithAllTiers_heap heap a tiers = Inr (b, heap') \<longrightarrow>
        (\<forall>i < length heap. heap' ! i = heap ! i)
      \<and> a < length heap \<and> heap' ! a = heap ! a \<and> site_at heap' a = site_at heap a
      \<and> length heap \<le> b \<and> length heap' = Suc (length heap)
      \<and> (\<exists>s c. site_at heap a = Some s \<and> calculateSiteWithAllTiers s tiers = Inr c
            \<and> heap' ! b = Calc_object c \<and> Site.truncate c = s))"
proof (intro conjI impI)
  assume r: "calculateSiteWithAllTiers site tiers = Inr r"
  from calculateSiteWithAllTiers_fields [OF r] have t: "Site.truncate r = site" by blast
  then show "Site.truncate r = site" .
  show "site_id r = site_id site" "site_name r = site_name site"
    "systemSizeKwp r = systemSizeKwp site" "siteType r = siteType site"
    "contractStatus r = contractStatus site" "onboardDate r = onboardDate site"
    "pmCost r = pmCost site" "cctvCost r = cctvCost site" "cleaningCost r = cleaningCost site"
    "spvId r = spvId site" "spvCode r = spvCode site"
    "sourceSheet r = sourceSheet site" "sourceRow r = sourceRow site"
    "createdAt r = createdAt site" "updatedAt r = updatedAt site"
    using truncate_fields [of r] by (simp_all only: t)
next
  assume h: "calculateSiteWithAllTiers_heap heap a tiers = Inr (b, heap')"
  from calculateSiteWithAllTiers_heap_Inr [OF h] obtain s c where
    s: "site_at heap a = Some s" and c: "calculateSiteWithAllTiers s tiers = Inr c"
    and b: "b = length heap" and h': "heap' = heap @ [Calc_object c]"
    by blast
  from s show a: "a < length heap" by (simp add: site_at_def split: if_splits)
  show "\<forall>i < length heap. heap' ! i = heap ! i" by (simp add: h' nth_append)
  show "heap' ! a = heap ! a" using a by (simp add: h' nth_append)
  show "site_at heap' a = site_at heap a" using a by (simp add: site_at_def h' nth_append)
  show "length heap \<le> b" by (simp add: b)
  show "length heap' = Suc (length heap)" by (simp add: h')
  from calculateSiteWithAllTiers_fields [OF c] have "Site.truncate c = s" by blast
  moreover have "heap' ! b = Calc_object c" by (simp add: h' b)
  ultimately show "\<exists>s c. site_at heap a = Some s \<and> calculateSiteWithAllTiers s tiers = Inr c
            \<and> heap' ! b = Calc_object c \<and> Site.truncate c = s"
    using s c by blast
qed

theorem C10_site_fields_kept_witness:
  "\<exists>b heap' c. calculateSiteWithAllTiers_heap [Site_object example_site] 0 DEFAULT_RATE_TIERS
        = Inr (b, heap')
     \<and> heap' ! 0 = Site_object example_site
     \<and> b = 1 \<and> heap' ! b = Calc_object c
     \<and> Site.truncate c = example_site \<and> site_name c = ''Site A'' \<and> pmCost c = Num 600"
proof -
  obtain r where r: "calculateSiteWithAllTiers example_site DEFAULT_RATE_TIERS = Inr r"
    using calculateSiteWithAllTiers_default by blast
  have s: "site_at [Site_object example_site] 0 = Some example_site"
    by (simp add: site_at_def)
  have h: "calculateSiteWithAllTiers_heap [Site_object example_site] 0 DEFAULT_RATE_TIERS
      = Inr (1, [Site_object example_site, Calc_object r])"
    by (simp add: calculateSiteWithAllTiers_heap_def s r)
  note c10 = C10_site_fields_kept [where heap = "[Site_object example_site]" and a = 0
      and tiers = DEFAULT_RATE_TIERS and b = 1
      and heap' = "[Site_object example_site, Calc_object r]" and site = example_site and r = r]
  from c10 [THEN conjunct1, THEN mp, OF r]
  have f: "Site.truncate r = example_site" "site_name r = ''Site A''" "pmCost r = Num 600"
    by (simp_all add: example_site_def)
  from c10 [THEN conjunct2, THEN mp, OF h]
  have "[Site_object example_site, Calc_object r] ! 0 = [Site_object example_site] ! 0"
    by blast
  then have "[Site_object example_site, Calc_object r] ! 0 = Site_object example_site" by simp
  with h f show ?thesis by auto
qed

section \<open>CM days: the monthly series\<close>

text \<open>One turn of the callback: the row of the month, then the rest with the new sums.\<close>

lemma tracking_rows_Cons:
  "tracking_rows env sites um a u (ym # rest) =
    (\<lparr>yearMonth = ym,
      daysAccumulated = round1 (month_accumulated env sites ym),
      daysUsed = usage_or_0 um ym,
      daysRemaining = round1 (js_sub (month_accumulated env sites ym) (usage_or_0 um ym)),
      cumulativeAccumulated = round1 (js_add a (month_accumulated env sites ym)),
      cumulativeUsed = round1 (js_add u (usage_or_0 um ym)),
      cumulativeRemaining = round1 (js_sub (js_add a (month_accumulated env sites ym))
                                           (js_add u (usage_or_0 um ym)))\<rparr>
       # fst (tracking_rows env sites um (js_add a (month_accumulated env sites ym))
                (js_add u (usage_or_0 um ym)) rest),
     snd (tracking_rows env sites um (js_add a (month_accumulated env sites ym))
            (js_add u (usage_or_0 um ym)) rest))"
  by (simp add: Let_def split: prod.split)

declare tracking_rows.simps(2) [simp del]

lemma tracking_rows_yearMonth:
  "map yearMonth (fst (tracking_rows env sites um a u months)) = months"
  by (induction months arbitrary: a u) (simp_all add: tracking_rows_Cons)

lemma tracking_rows_length:
  "length (fst (tracking_rows env sites um a u months)) = length months"
  using tracking_rows_yearMonth [of env sites um a u months] by (metis length_map)

text \<open>The running sums after the whole series.\<close>

lemma tracking_rows_sums:
  "snd (tracking_rows env sites um a u months) =
     (foldl js_add a (map (month_accumulated env sites) months),
      foldl js_add u (map (usage_or_0 um) months))"
  by (induction months arbitrary: a u) (simp_all add: tracking_rows_Cons)

text \<open>Row \<open>N\<close> of the series, from the running sums over the months up to \<open>N\<close>.\<close>

lemma tracking_rows_nth:
  assumes "N < length months"
  shows "fst (tracking_rows env sites um a u months) ! N =
    \<lparr>yearMonth = months ! N,
     daysAccumulated = round1 (month_accumulated env sites (months ! N)),
     daysUsed = usage_or_0 um (months ! N),
     daysRemaining = round1 (js_sub (month_accumulated env sites (months ! N))
                                    (usage_or_0 um (months ! N))),
     cumulativeAccumulated =
       round1 (foldl js_add a (map (month_accumulated env sites) (take (Suc N) months))),
     cumulativeUsed = round1 (foldl js_add u (map (usage_or_0 um) (take (Suc N) months))),
     cumulativeRemaining =
       round1 (js_sub (foldl js_add a (map (month_accumulated env sites) (take (Suc N) months)))
                      (foldl js_add u (map (usage_or_0 um) (take (Suc N) months))))\<rparr>"
  using assms
proof (induction months arbitrary: a u N)
  case Nil
  then show ?case by simp
next
  case (Cons ym rest)
  show ?case
  proof (cases N)
    case 0
    then show ?thesis by (simp add: tracking_rows_Cons)
  next
    case (Suc M)
    with Cons.prems have "M < length rest" by simp
    from Cons.IH [OF this] Suc show ?thesis
      by (simp add: tracking_rows_Cons)
  qed
qed

text \<open>The summary when the portfolio has a start date.\<close>

lemma calculateCMDaysTracking_cases:
  "(calculateCMDaysTracking env sites cmDaysUsage = empty_tracking)
   \<or> (\<exists>startDate. getPortfolioStartDate env sites = Some startDate
        \<and> calculateCMDaysTracking env sites cmDaysUsage =
           \<lparr>portfolioStartDate = Some startDate,
            monthlyData = fst (tracking_rows env sites (usageMap cmDaysUsage) (Num 0) (Num 0)
                               (getMonthsFromStart env startDate)),
            totalAccumulated = round1 (foldl js_add (Num 0)
               (map (month_accumulated env sites) (getMonthsFromStart env startDate))),
            totalUsed = round1 (foldl js_add (Num 0)
               (map (usage_or_0 (usageMap cmDaysUsage)) (getMonthsFromStart env startDate))),
            totalRemaining = round1 (js_sub
               (foldl js_add (Num 0)
                  (map (month_accumulated env sites) (getMonthsFromStart env startDate)))
               (foldl js_add (Num 0)
                  (map (usage_or_0 (usageMap cmDaysUsage)) (getMonthsFromStart env startDate))))\<rparr>)"
proof (cases "getPortfolioStartDate env sites")
  case None
  then show ?thesis by (simp add: calculateCMDaysTracking_def)
next
  case (Some startDate)
  show ?thesis
  proof (cases "startDate = []")
    case True
    with Some show ?thesis by (simp add: calculateCMDaysTracking_def)
  next
    case False
    obtain rows a u where t: "tracking_rows env sites (usageMap cmDaysUsage) (Num 0) (Num 0)
        (getMonthsFromStart env startDate) = (rows, a, u)"
      by (cases "tracking_rows env sites (usageMap cmDaysUsage) (Num 0) (Num 0)
        (getMonthsFromStart env startDate)") auto
    from tracking_rows_sums [of env sites "usageMap cmDaysUsage" "Num 0" "Num 0"
        "getMonthsFromStart env startDate"] t
    have "a = foldl js_add (Num 0)
               (map (month_accumulated env sites) (getMonthsFromStart env startDate))"
      "u = foldl js_add (Num 0)
               (map (usage_or_0 (usageMap cmDaysUsage)) (getMonthsFromStart env startDate))"
      by simp_all
    with Some False t show ?thesis by (simp add: calculateCMDaysTracking_def)
  qed
qed

lemma round1_Num: "round1 (Num x) = Num (fl (of_int \<lfloor>fl (x * 10) + 1 / 2\<rfloor> / 10))"
  by (simp add: round1_def)

lemma round1_0: "round1 (Num 0) = Num 0"
  by (simp add: round1_Num)

text \<open>Every row of the summary, and its totals, in terms of the months of the series.\<close>

lemma calculateCMDaysTracking_row:
  assumes "N < length (monthlyData (calculateCMDaysTracking env sites cmDaysUsage))"
  defines "r \<equiv> calculateCMDaysTracking env sites cmDaysUsage"
  defines "months \<equiv> map yearMonth (monthlyData r)"
  shows "monthlyData r ! N =
    \<lparr>yearMonth = months ! N,
     daysAccumulated = round1 (month_accumulated env sites (months ! N)),
     daysUsed = usage_or_0 (usageMap cmDaysUsage) (months ! N),
     daysRemaining = round1 (js_sub (month_accumulated env sites (months ! N))
                                    (usage_or_0 (usageMap cmDaysUsage) (months ! N))),
     cumulativeAccumulated =
       round1 (foldl js_add (Num 0) (map (month_accumulated env sites) (take (Suc N) months))),
     cumulativeUsed =
       round1 (foldl js_add (Num 0) (map (usage_or_0 (usageMap cmDaysUsage)) (take (Suc N) months))),
     cumulativeRemaining =
       round1 (js_sub
         (foldl js_add (Num 0) (map (month_accumulated env sites) (take (Suc N) months)))
         (foldl js_add (Num 0) (map (usage_or_0 (usageMap cmDaysUsage)) (take (Suc N) months))))\<rparr>"
proof -
  from assms(1) have "r \<noteq> empty_tracking" by (auto simp: r_def empty_tracking_def)
  with calculateCMDaysTracking_cases [of env sites cmDaysUsage] obtain startDate where
    md: "monthlyData r = fst (tracking_rows env sites (usageMap cmDaysUsage) (Num 0) (Num 0)
                               (getMonthsFromStart env startDate))"
    by (auto simp: r_def)
  then have m: "months = getMonthsFromStart env startDate"
    by (simp add: months_def tracking_rows_yearMonth)
  from assms(1) have "N < length months" by (simp add: months_def r_def)
  then show ?thesis unfolding md m [symmetric] by (rule tracking_rows_nth)
qed

lemma calculateCMDaysTracking_totals:
  fixes env :: Env and sites :: "Site list" and cmDaysUsage :: "CMDaysUsage list"
  defines "r \<equiv> calculateCMDaysTracking env sites cmDaysUsage"
  defines "months \<equiv> map yearMonth (monthlyData r)"
  shows "totalAccumulated r = round1 (foldl js_add (Num 0) (map (month_accumulated env sites) months))
    \<and> totalUsed r = round1 (foldl js_add (Num 0) (map (usage_or_0 (usageMap cmDaysUsage)) months))
    \<and> totalRemaining r = round1 (js_sub
           (foldl js_add (Num 0) (map (month_accumulated env sites) months))
           (foldl js_add (Num 0) (map (usage_or_0 (usageMap cmDaysUsage)) months)))"
proof (cases "r = empty_tracking")
  case True
  then have "months = []" by (simp add: months_def empty_tracking_def)
  with True show ?thesis by (simp add: empty_tracking_def round1_0)
next
  case False
  with calculateCMDaysTracking_cases [of env sites cmDaysUsage] obtain startDate where
    e: "r = \<lparr>portfolioStartDate = Some startDate,
            monthlyData = fst (tracking_rows env sites (usageMap cmDaysUsage) (Num 0) (Num 0)
                               (getMonthsFromStart env startDate)),
            totalAccumulated = round1 (foldl js_add (Num 0)
               (map (month_accumulated env sites) (getMonthsFromStart env startDate))),
            totalUsed = round1 (foldl js_add (Num 0)
               (map (usage_or_0 (usageMap cmDaysUsage)) (getMonthsFromStart env startDate))),
            totalRemaining = round1 (js_sub
               (foldl js_add (Num 0)
                  (map (month_accumulated env sites) (getMonthsFromStart env startDate)))
               (foldl js_add (Num 0)
                  (map (usage_or_0 (usageMap cmDaysUsage)) (getMonthsFromStart env startDate))))\<rparr>"
    by (auto simp: r_def)
  have m: "getMonthsFromStart env startDate = months"
    unfolding months_def by (subst e) (simp add: tracking_rows_yearMonth)
  show ?thesis unfolding m [symmetric] by (subst e, simp)+
qed

text \<open>
  Claim C8. When no contracted site has an onboard date (no site at all included),
  \<open>calculateCMDaysTracking\<close> returns the empty state: no start date, no monthly rows,
  and the three totals \<open>0\<close>.
\<close>

theorem C8_empty_state:
  assumes "\<forall>s \<in> set sites. contractStatus s = Yes \<longrightarrow> onboardDate s = None"
  shows "calculateCMDaysTracking env sites cmDaysUsage =
    \<lparr>portfolioStartDate = None, monthlyData = [], totalAccumulated = Num 0,
     totalUsed = Num 0, totalRemaining = Num 0\<rparr>"
proof -
  from assms have "filter (\<lambda>s. contractStatus s = Yes \<and> has_onboardDate s) sites = []"
    by (auto simp: filter_empty_conv has_onboardDate_def)
  then have "getPortfolioStartDate env sites = None"
    by (simp add: getPortfolioStartDate_def)
  then show ?thesis by (simp add: calculateCMDaysTracking_def empty_tracking_def)
qed

theorem C8_empty_state_witness:
  "calculateCMDaysTracking example_env
        [example_site\<lparr>onboardDate := None\<rparr>, example_site\<lparr>contractStatus := No\<rparr>]
        [example_usage ''2024-02'' (Num (5 / 2))] =
      \<lparr>portfolioStartDate = None, monthlyData = [], totalAccumulated = Num 0,
       totalUsed = Num 0, totalRemaining = Num 0\<rparr>
   \<and> calculateCMDaysTracking example_env [] [] =
      \<lparr>portfolioStartDate = None, monthlyData = [], totalAccumulated = Num 0,
       totalUsed = Num 0, totalRemaining = Num 0\<rparr>"
proof -
  have h: "\<forall>s \<in> set [example_site\<lparr>onboardDate := None\<rparr>, example_site\<lparr>contractStatus := No\<rparr>].
      contractStatus s = Yes \<longrightarrow> onboardDate s = None"
    by (simp add: example_site_def)
  have e: "\<forall>s \<in> set ([] :: Site list). contractStatus s = Yes \<longrightarrow> onboardDate s = None"
    by simp
  from C8_empty_state [OF h] C8_empty_state [OF e] show ?thesis by blast
qed

text \<open>The example inputs, evaluated.\<close>

lemmas calendar_defs = MakeDay_def MakeDate_def DayFromYear_def InLeapYear_def month_start_def
  msPerDay_def Day_def TimeWithinDay_def YearFromDay_def MonthFromDay_def DateFromDay_def
  DayWithinYear_def DaysInMonth_def TimeClip_def

lemmas string_defs = is_digit_def digits_value_def show_int_def show_nat.simps padStart2_def
  digit_char_def

lemma parse_example: "parse_iso_date ''2024-01-15'' = Some 1705276800000"
  by (simp add: parse_iso_date_def string_defs calendar_defs)

lemma example_start: "getPortfolioStartDate example_env [example_site] = Some ''2024-01-15''"
  by (simp add: getPortfolioStartDate_def example_site_def has_onboardDate_def sort_by_def
      at_index_def)

lemma example_months:
  "getMonthsFromStart example_env ''2024-01-15'' = [''2024-01'', ''2024-02'', ''2024-03'', ''2024-04'']"
  by (simp add: getMonthsFromStart_def Date_parse_def parse_example setDate_def setMonth_def
      getFullYear_def getMonth_def getDate_def example_env_def months_loop.simps
      calendar_defs string_defs upt_rec)

text \<open>
  Claim C4. In row \<open>N\<close> of the monthly series, \<open>cumulativeRemaining\<close> is the rounding to
  one decimal place, by \<open>round1\<close>, of the difference of the two running sums over the
  months up to \<open>N\<close>: the days accumulated and the days used of these months, added up
  as doubles with no rounding to a decimal place in between. The emitted
  \<open>cumulativeAccumulated\<close> and \<open>cumulativeUsed\<close> are the roundings of the same two sums.
\<close>

theorem C4_cumulative_remaining:
  assumes "N < length (monthlyData (calculateCMDaysTracking env sites cmDaysUsage))"
  defines "row \<equiv> monthlyData (calculateCMDaysTracking env sites cmDaysUsage) ! N"
  defines "months \<equiv>
    take (Suc N) (map yearMonth (monthlyData (calculateCMDaysTracking env sites cmDaysUsage)))"
  defines "accumulated \<equiv> foldl js_add (Num 0) (map (month_accumulated env sites) months)"
  defines "used \<equiv> foldl js_add (Num 0) (map (usage_or_0 (usageMap cmDaysUsage)) months)"
  shows "cumulativeRemaining row = round1 (js_sub accumulated used)
    \<and> cumulativeAccumulated row = round1 accumulated
    \<and> cumulativeUsed row = round1 used
    \<and> (\<forall>a u. accumulated = Num a \<and> used = Num u \<longrightarrow>
          cumulativeRemaining row
            = Num (fl (of_int \<lfloor>fl (fl (a - u) * 10) + 1 / 2\<rfloor> / 10)))"
proof -
  have "cumulativeRemaining row = round1 (js_sub accumulated used)"
    "cumulativeAccumulated row = round1 accumulated"
    "cumulativeUsed row = round1 used"
    unfolding row_def accumulated_def used_def months_def
    by (simp_all add: calculateCMDaysTracking_row [OF assms(1)])
  then show ?thesis by (auto simp: round1_Num)
qed

lemma example_capacity:
  "month_accumulated example_env [example_site] ''2024-01'' = Num 1"
  "month_accumulated example_env [example_site] ''2024-02'' = Num 1"
  by (simp_all add: month_accumulated_def getContractedCapacityKwpForMonth_def
      calculateMonthlyCorrectiveDays_def round1_def sum_systemSize_def
      has_onboardDate_def Date_parse_def parse_example
      endOfMonth_def Number_str_def elem_or_undefined_def at_index_def Date_fields_def
      trunc_def example_env_def example_site_def calendar_defs string_defs fl_eval)

lemma calculateCMDaysTracking_rows:
  assumes "getPortfolioStartDate env sites = Some startDate" "startDate \<noteq> []"
  shows "monthlyData (calculateCMDaysTracking env sites cmDaysUsage) =
     fst (tracking_rows env sites (usageMap cmDaysUsage) (Num 0) (Num 0)
            (getMonthsFromStart env startDate))"
  using assms by (simp add: calculateCMDaysTracking_def split: prod.split)

lemma example_rows:
  "monthlyData (calculateCMDaysTracking example_env [example_site] cmDaysUsage) =
     fst (tracking_rows example_env [example_site] (usageMap cmDaysUsage) (Num 0) (Num 0)
            [''2024-01'', ''2024-02'', ''2024-03'', ''2024-04''])"
proof -
  have "monthlyData (calculateCMDaysTracking example_env [example_site] cmDaysUsage) =
     fst (tracking_rows example_env [example_site] (usageMap cmDaysUsage) (Num 0) (Num 0)
            (getMonthsFromStart example_env ''2024-01-15''))"
    by (rule calculateCMDaysTracking_rows [OF example_start]) simp
  then show ?thesis by (simp only: example_months)
qed

text \<open>One day accrued and 1.05 days used in the first month.\<close>

lemma example_usage_jan:
  "usage_or_0 (usageMap [example_usage ''2024-01'' v]) ''2024-01'' = (if truthy v then v else Num 0)"
  by (simp add: usage_or_0_def usageMap_def example_usage_def)

theorem C4_cumulative_remaining_witness:
  "0 < length (monthlyData (calculateCMDaysTracking example_env [example_site]
                  [example_usage ''2024-01'' (Num (fl (21 / 20)))]))
   \<and> cumulativeRemaining (monthlyData (calculateCMDaysTracking example_env [example_site]
                  [example_usage ''2024-01'' (Num (fl (21 / 20)))]) ! 0) = Num (fl (- (1 / 10)))"
proof -
  let ?u = "[example_usage ''2024-01'' (Num (fl (21 / 20)))]"
  let ?r = "calculateCMDaysTracking example_env [example_site] ?u"
  have l: "0 < length (monthlyData ?r)"
    by (simp add: example_rows tracking_rows_length)
  have m: "take (Suc 0) (map yearMonth (monthlyData ?r)) = [''2024-01'']"
    by (simp add: example_rows tracking_rows_yearMonth)
  have "truthy (Num (fl (21 / 20)))" by (simp add: fl_eval)
  then have u: "usage_or_0 (usageMap ?u) ''2024-01'' = Num (fl (21 / 20))"
    by (simp add: example_usage_jan)
  from C4_cumulative_remaining [OF l]
  have "cumulativeRemaining (monthlyData ?r ! 0) =
      round1 (js_sub
        (foldl js_add (Num 0) (map (month_accumulated example_env [example_site])
           (take (Suc 0) (map yearMonth (monthlyData ?r)))))
        (foldl js_add (Num 0) (map (usage_or_0 (usageMap ?u))
           (take (Suc 0) (map yearMonth (monthlyData ?r))))))"
    by (rule conjunct1)
  then have "cumulativeRemaining (monthlyData ?r ! 0) =
      round1 (js_sub (js_add (Num 0) (Num 1)) (js_add (Num 0) (Num (fl (21 / 20)))))"
    unfolding m by (simp add: u example_capacity del: js_add.simps js_sub.simps)
  then have "cumulativeRemaining (monthlyData ?r ! 0) = Num (fl (- (1 / 10)))"
    by (simp add: round1_def fl_eval)
  with l show ?thesis by simp
qed

section \<open>Rounding\<close>

lemma half_away_nonneg:
  assumes "0 \<le> p"
  shows "half_away p = \<lfloor>p + 1 / 2\<rfloor>"
  using assms by (simp add: half_away_def)

lemma half_away_negative_tie:
  assumes "p < 0" "of_int \<lfloor>p + 1 / 2\<rfloor> = p + 1 / 2"
  shows "of_int (half_away p) = p - 1 / 2"
proof -
  define k where "k = \<lfloor>p + 1 / 2\<rfloor>"
  have k: "of_int k = p + 1 / 2" using assms(2) by (simp add: k_def)
  have "- p + 1 / 2 = of_int (1 - k)" using k by simp
  then have "\<lfloor>- p + 1 / 2\<rfloor> = 1 - k" by (metis floor_of_int)
  then have "of_int (half_away p) = - of_int (1 - k)"
    using assms(1) by (simp add: half_away_def)
  also have "\<dots> = p - 1 / 2" using k by simp
  finally show ?thesis .
qed

lemma half_away_no_tie:
  assumes "p < 0" "of_int \<lfloor>p + 1 / 2\<rfloor> \<noteq> p + 1 / 2"
  shows "half_away p = \<lfloor>p + 1 / 2\<rfloor>"
proof -
  define z where "z = p - 1 / 2"
  have nz: "of_int \<lfloor>z\<rfloor> \<noteq> z"
  proof
    assume "of_int \<lfloor>z\<rfloor> = z"
    then have "of_int (\<lfloor>z\<rfloor> + 1) = z + 1" by simp
    also have "z + 1 = p + 1 / 2" by (simp add: z_def)
    finally have "of_int (\<lfloor>z\<rfloor> + 1) = p + 1 / 2" .
    then have "of_int \<lfloor>p + 1 / 2\<rfloor> = p + 1 / 2" by (metis floor_of_int)
    with assms(2) show False by simp
  qed
  have "- p + 1 / 2 = - z" by (simp add: z_def)
  then have "\<lfloor>- p + 1 / 2\<rfloor> = - \<lceil>z\<rceil>" by (simp add: ceiling_def)
  also have "\<lceil>z\<rceil> = \<lfloor>z\<rfloor> + 1" using nz by (simp add: ceiling_altdef)
  also have "\<lfloor>z\<rfloor> + 1 = \<lfloor>z + 1\<rfloor>" by simp
  also have "z + 1 = p + 1 / 2" by (simp add: z_def)
  finally have "\<lfloor>- p + 1 / 2\<rfloor> = - \<lfloor>p + 1 / 2\<rfloor>" .
  then show ?thesis using assms(1) by (simp add: half_away_def)
qed

lemma correctiveDaysAllowed_round1:
  assumes "calculatePortfolioSummary sites = Inr p"
  shows "correctiveDaysAllowed p
           = round1 (js_div (js_div (contractedCapacityKwp p) (Num 1000)) (Num 12))"
  using assms
  by (auto simp: calculatePortfolioSummary_def Let_def calculateMonthlyCorrectiveDays_def
      split: sum.splits option.splits)

text \<open>
  Claim C6, as amended. Every emitted value is \<open>round1\<close> of its unrounded value, each
  field on its own: \<open>daysAccumulated\<close>, \<open>daysRemaining\<close>, the three cumulative fields,
  the three totals and \<open>correctiveDaysAllowed\<close>. \<open>round1\<close> takes the double product of
  the value and 10 to the nearest integer, a tie going up, and divides by 10. On the
  product this is rounding half away from zero whenever the product is not negative
  or is not a tie; a negative product that is a tie moves towards zero, where rounding
  half away from zero moves it away.
\<close>

theorem C6_rounding:
  fixes env :: Env and sites :: "Site list" and cmDaysUsage :: "CMDaysUsage list"
  defines "r \<equiv> calculateCMDaysTracking env sites cmDaysUsage"
  defines "months \<equiv> map yearMonth (monthlyData r)"
  defines "accumulated \<equiv> month_accumulated env sites"
  defines "used \<equiv> usage_or_0 (usageMap cmDaysUsage)"
  shows "round1 (Num x) = Num (fl (of_int \<lfloor>fl (x * 10) + 1 / 2\<rfloor> / 10))
    \<and> (0 \<le> fl (x * 10) \<or> of_int \<lfloor>fl (x * 10) + 1 / 2\<rfloor> \<noteq> fl (x * 10) + 1 / 2 \<longrightarrow>
         round1 (Num x) = Num (fl (of_int (half_away (fl (x * 10))) / 10)))
    \<and> (fl (x * 10) < 0 \<and> of_int \<lfloor>fl (x * 10) + 1 / 2\<rfloor> = fl (x * 10) + 1 / 2 \<longrightarrow>
         round1 (Num x) = Num (fl ((fl (x * 10) + 1 / 2) / 10))
         \<and> of_int (half_away (fl (x * 10))) = fl (x * 10) - 1 / 2)
    \<and> (N < length (monthlyData r) \<longrightarrow>
         daysAccumulated (monthlyData r ! N) = round1 (accumulated (months ! N))
       \<and> daysRemaining (monthlyData r ! N)
           = round1 (js_sub (accumulated (months ! N)) (used (months ! N)))
       \<and> cumulativeAccumulated (monthlyData r ! N)
           = round1 (foldl js_add (Num 0) (map accumulated (take (Suc N) months)))
       \<and> cumulativeUsed (monthlyData r ! N)
           = round1 (foldl js_add (Num 0) (map used (take (Suc N) months)))
       \<and> cumulativeRemaining (monthlyData r ! N)
           = round1 (js_sub (foldl js_add (Num 0) (map accumulated (take (Suc N) months)))
                            (foldl js_add (Num 0) (map used (take (Suc N) months)))))
    \<and> totalAccumulated r = round1 (foldl js_add (Num 0) (map accumulated months))
    \<and> totalUsed r = round1 (foldl js_add (Num 0) (map used months))
    \<and> totalRemaining r = round1 (js_sub (foldl js_add (Num 0) (map accumulated months))
                                        (foldl js_add (Num 0) (map used months)))
    \<and> (\<forall>p. calculatePortfolioSummary sites = Inr p \<longrightarrow>
         correctiveDaysAllowed p
           = round1 (js_div (js_div (contractedCapacityKwp p) (Num 1000)) (Num 12)))"
proof -
  have a: "round1 (Num x) = Num (fl (of_int \<lfloor>fl (x * 10) + 1 / 2\<rfloor> / 10))"
    by (rule round1_Num)
  have b: "0 \<le> fl (x * 10) \<or> of_int \<lfloor>fl (x * 10) + 1 / 2\<rfloor> \<noteq> fl (x * 10) + 1 / 2 \<longrightarrow>
         round1 (Num x) = Num (fl (of_int (half_away (fl (x * 10))) / 10))"
    using half_away_nonneg [of "fl (x * 10)"] half_away_no_tie [of "fl (x * 10)"]
    by (cases "0 \<le> fl (x * 10)") (auto simp: round1_Num)
  have c: "fl (x * 10) < 0 \<and> of_int \<lfloor>fl (x * 10) + 1 / 2\<rfloor> = fl (x * 10) + 1 / 2 \<longrightarrow>
         round1 (Num x) = Num (fl ((fl (x * 10) + 1 / 2) / 10))
         \<and> of_int (half_away (fl (x * 10))) = fl (x * 10) - 1 / 2"
    using half_away_negative_tie [of "fl (x * 10)"] by (auto simp: round1_Num)
  have d: "N < length (monthlyData r) \<longrightarrow>
         daysAccumulated (monthlyData r ! N) = round1 (accumulated (months ! N))
       \<and> daysRemaining (monthlyData r ! N)
           = round1 (js_sub (accumulated (months ! N)) (used (months ! N)))
       \<and> cumulativeAccumulated (monthlyData r ! N)
           = round1 (foldl js_add (Num 0) (map accumulated (take (Suc N) months)))
       \<and> cumulativeUsed (monthlyData r ! N)
           = round1 (foldl js_add (Num 0) (map used (take (Suc N) months)))
       \<and> cumulativeRemaining (monthlyData r ! N)
           = round1 (js_sub (foldl js_add (Num 0) (map accumulated (take (Suc N) months)))
                            (foldl js_add (Num 0) (map used (take (Suc N) months))))"
  proof
    assume "N < length (monthlyData r)"
    then have "N < length (monthlyData (calculateCMDaysTracking env sites cmDaysUsage))"
      by (simp add: r_def)
    from calculateCMDaysTracking_row [OF this]
    show "daysAccumulated (monthlyData r ! N) = round1 (accumulated (months ! N))
       \<and> daysRemaining (monthlyData r ! N)
           = round1 (js_sub (accumulated (months ! N)) (used (months ! N)))
       \<and> cumulativeAccumulated (monthlyData r ! N)
           = round1 (foldl js_add (Num 0) (map accumulated (take (Suc N) months)))
       \<and> cumulativeUsed (monthlyData r ! N)
           = round1 (foldl js_add (Num 0) (map used (take (Suc N) months)))
       \<and> cumulativeRemaining (monthlyData r ! N)
           = round1 (js_sub (foldl js_add (Num 0) (map accumulated (take (Suc N) months)))
                            (foldl js_add (Num 0) (map used (take (Suc N) months))))"
      unfolding r_def months_def accumulated_def used_def by simp
  qed
  have e: "totalAccumulated r = round1 (foldl js_add (Num 0) (map accumulated months))
    \<and> totalUsed r = round1 (foldl js_add (Num 0) (map used months))
    \<and> totalRemaining r = round1 (js_sub (foldl js_add (Num 0) (map accumulated months))
                                        (foldl js_add (Num 0) (map used months)))"
    unfolding r_def months_def accumulated_def used_def
    by (rule calculateCMDaysTracking_totals)
  have f: "\<forall>p. calculatePortfolioSummary sites = Inr p \<longrightarrow>
         correctiveDaysAllowed p
           = round1 (js_div (js_div (contractedCapacityKwp p) (Num 1000)) (Num 12))"
    using correctiveDaysAllowed_round1 by blast
  from a b c d e f show ?thesis by blast
qed

text \<open>6.6 MW accrue \<open>0.5499999999999999\<close> days a month, emitted as \<open>0.5\<close>.\<close>

lemma accrual_6600:
  "round1 (js_div (js_div (Num 6600) (Num 1000)) (Num 12)) = Num (1 / 2)"
  by (simp add: round1_def fl_eval)

theorem C6_rounding_witness:
  "round1 (Num (5 / 4)) = Num (fl (13 / 10))
   \<and> round1 (Num (- (1 / 4))) = Num (fl (- (1 / 5)))
   \<and> half_away (- (5 / 2)) = - 3
   \<and> 0 < length (monthlyData (calculateCMDaysTracking example_env [example_site]
                   [example_usage ''2024-01'' (Num (5 / 4))]))
   \<and> daysRemaining (monthlyData (calculateCMDaysTracking example_env [example_site]
                   [example_usage ''2024-01'' (Num (5 / 4))]) ! 0) = Num (fl (- (1 / 5)))
   \<and> (\<exists>p. calculatePortfolioSummary [example_site\<lparr>systemSizeKwp := Num 6600\<rparr>] = Inr p
         \<and> correctiveDaysAllowed p = Num (1 / 2))"
proof -
  let ?u = "[example_usage ''2024-01'' (Num (5 / 4))]"
  let ?r = "calculateCMDaysTracking example_env [example_site] ?u"
  let ?s = "[example_site\<lparr>systemSizeKwp := Num 6600\<rparr>]"
  note c6 = C6_rounding [where env = example_env and sites = "[example_site]"
      and cmDaysUsage = ?u and N = 0]
  have p1: "fl (5 / 4 * 10) = 25 / 2" and p2: "fl (- (1 / 4) * 10) = - (5 / 2)"
    by (simp_all add: fl_eval)
  have "0 \<le> fl (5 / 4 * 10) \<or> of_int \<lfloor>fl (5 / 4 * 10) + 1 / 2\<rfloor> \<noteq> fl (5 / 4 * 10) + 1 / 2"
    unfolding p1 by simp
  from c6 [where x = "5 / 4", THEN conjunct2, THEN conjunct1, THEN mp, OF this]
  have "round1 (Num (5 / 4)) = Num (fl (of_int (half_away (25 / 2)) / 10))"
    unfolding p1 .
  then have a: "round1 (Num (5 / 4)) = Num (fl (13 / 10))"
    by (simp add: half_away_def)
  have "fl (- (1 / 4) * 10) < 0
      \<and> of_int \<lfloor>fl (- (1 / 4) * 10) + 1 / 2\<rfloor> = fl (- (1 / 4) * 10) + 1 / 2"
    unfolding p2 by simp
  from c6 [where x = "- (1 / 4)", THEN conjunct2, THEN conjunct2, THEN conjunct1, THEN mp,
      OF this]
  have "round1 (Num (- (1 / 4))) = Num (fl ((- (5 / 2) + 1 / 2) / 10))
      \<and> of_int (half_away (- (5 / 2))) = - (5 / 2) - 1 / (2 :: real)"
    unfolding p2 .
  then have b: "round1 (Num (- (1 / 4))) = Num (fl (- (1 / 5)))
      \<and> half_away (- (5 / 2)) = - 3"
    by (simp add: half_away_def)
  have l: "0 < length (monthlyData ?r)"
    by (simp add: example_rows tracking_rows_length)
  have y: "map yearMonth (monthlyData ?r) ! 0 = ''2024-01''"
    by (simp add: example_rows tracking_rows_yearMonth)
  from c6 [where x = 0, THEN conjunct2, THEN conjunct2, THEN conjunct2, THEN conjunct1,
      THEN mp, OF l]
  have "daysRemaining (monthlyData ?r ! 0)
      = round1 (js_sub (month_accumulated example_env [example_site]
                          (map yearMonth (monthlyData ?r) ! 0))
                       (usage_or_0 (usageMap ?u) (map yearMonth (monthlyData ?r) ! 0)))"
    by (rule conjunct2 [THEN conjunct1])
  then have d: "daysRemaining (monthlyData ?r ! 0) = Num (fl (- (1 / 5)))"
    unfolding y by (simp add: example_capacity example_usage_jan round1_def fl_eval)
  obtain p where p: "calculatePortfolioSummary ?s = Inr p"
    "contractedCapacityKwp p = sum_systemSize (filter (\<lambda>s. contractStatus s = Yes) ?s)"
    using calculatePortfolioSummary_currentTier [of ?s] by blast
  have cap: "sum_systemSize (filter (\<lambda>s. contractStatus s = Yes) ?s) = Num 6600"
    by (simp add: sum_systemSize_def example_site_def fl_eval)
  from C6_rounding [where sites = ?s and x = 0, THEN conjunct2, THEN conjunct2, THEN conjunct2,
      THEN conjunct2, THEN conjunct2, THEN conjunct2, THEN conjunct2] p(1)
  have "correctiveDaysAllowed p
      = round1 (js_div (js_div (contractedCapacityKwp p) (Num 1000)) (Num 12))"
    by blast
  then have "correctiveDaysAllowed p = Num (1 / 2)"
    by (simp only: p(2) cap accrual_6600)
  with p(1) a b l d show ?thesis by blast
qed

text \<open>
  The claim as stated rounds a negative tie away from zero. With 1.25 days used against
  1 day accumulated, the days remaining are \<open>-0.25\<close>, and the product \<open>-2.5\<close> is a tie
  as a double; the emitted value is \<open>-0.2\<close>, and rounding half away from zero gives
  \<open>-0.3\<close>.
\<close>

theorem C6_half_away_counterexample:
  "daysRemaining (monthlyData (calculateCMDaysTracking example_env [example_site]
                   [example_usage ''2024-01'' (Num (5 / 4))]) ! 0) = Num (fl (- (1 / 5)))
   \<and> js_sub (month_accumulated example_env [example_site] ''2024-01'')
         (usage_or_0 (usageMap [example_usage ''2024-01'' (Num (5 / 4))]) ''2024-01'')
       = Num (- (1 / 4))
   \<and> spec_round_half_away (- (1 / 4)) = - (3 / 10)
   \<and> - (3 / 10) < fl (- (1 / 5))"
proof -
  let ?u = "[example_usage ''2024-01'' (Num (5 / 4))]"
  let ?r = "calculateCMDaysTracking example_env [example_site] ?u"
  have l: "0 < length (monthlyData ?r)"
    by (simp add: example_rows tracking_rows_length)
  have y: "map yearMonth (monthlyData ?r) ! 0 = ''2024-01''"
    by (simp add: example_rows tracking_rows_yearMonth)
  have "daysRemaining (monthlyData ?r ! 0)
      = round1 (js_sub (month_accumulated example_env [example_site]
                          (map yearMonth (monthlyData ?r) ! 0))
                       (usage_or_0 (usageMap ?u) (map yearMonth (monthlyData ?r) ! 0)))"
    by (simp add: calculateCMDaysTracking_row [OF l])
  then have a: "daysRemaining (monthlyData ?r ! 0) = Num (fl (- (1 / 5)))"
    unfolding y by (simp add: example_capacity example_usage_jan round1_def fl_eval)
  have b: "js_sub (month_accumulated example_env [example_site] ''2024-01'')
         (usage_or_0 (usageMap ?u) ''2024-01'') = Num (- (1 / 4))"
    by (simp add: example_capacity example_usage_jan fl_eval)
  have c: "spec_round_half_away (- (1 / 4)) = - (3 / 10)"
    by (simp add: spec_round_half_away_def half_away_def)
  have d: "- (3 / 10) < fl (- (1 / 5))" by (simp add: fl_eval)
  from a b c d show ?thesis by blast
qed

section \<open>The end of the month\<close>

text \<open>
  Day 0 of the month after is the last calendar day of the month, whatever the
  length of the month and in leap years too.
\<close>

lemma MakeDay_last_day:
  assumes "1 \<le> m" "m \<le> 12"
  shows "MakeDay y m 0 = MakeDay y (m - 1) (DaysInMonth y m)"
proof (cases "m = 12")
  case True
  then show ?thesis
    by (simp add: MakeDay_def DayFromYear_Suc month_start_def DaysInMonth_def)
next
  case False
  with assms have "m = 1 \<or> m = 2 \<or> m = 3 \<or> m = 4 \<or> m = 5 \<or> m = 6 \<or> m = 7
      \<or> m = 8 \<or> m = 9 \<or> m = 10 \<or> m = 11" by arith
  then show ?thesis
    by (elim disjE) (simp_all add: MakeDay_def month_start_def DaysInMonth_def)
qed

text \<open>
  \<open>endOfMonth\<close> is the local midnight that starts the last day of the month. A
  date-only \<open>onboardDate\<close> on that day is midnight UTC of the day: it is on or before
  \<open>endOfMonth\<close> exactly when local time is not ahead of UTC.
\<close>

lemma last_day_included_iff:
  assumes "1 \<le> m" "m \<le> 12" "100 \<le> y"
    and "\<bar>MakeDate (MakeDay y (m - 1) (DaysInMonth y m)) 0 - localTZA env\<bar> \<le> 8640000000000000"
  shows "date_le (Some (MakeDate (MakeDay y (m - 1) (DaysInMonth y m)) 0))
           (Date_fields env (Num (of_int y)) (Num (of_int m)) (Num 0))
         \<longleftrightarrow> localTZA env \<le> 0"
proof -
  have "trunc (of_int y) = y" "trunc (of_int m) = m" "trunc 0 = 0"
    by (simp_all add: trunc_def)
  then have "Date_fields env (Num (of_int y)) (Num (of_int m)) (Num 0)
      = TimeClip (MakeDate (MakeDay y m 0) 0 - localTZA env)"
    using assms(3) by (simp add: Date_fields_def)
  also have "\<dots> = Some (MakeDate (MakeDay y (m - 1) (DaysInMonth y m)) 0 - localTZA env)"
    using assms(4) by (simp add: MakeDay_last_day [OF assms(1,2)] TimeClip_def)
  finally show ?thesis by simp
qed

text \<open>
  Claim C5 says that a contracted site onboarded on the last calendar day of a month
  counts in the capacity of that month. On a server one hour ahead of UTC, the site
  onboarded on 2024-06-30 does not count in 2024-06: the capacity of the month is \<open>0\<close>.
  On a server on UTC it counts.
\<close>

theorem C5_last_day_excluded:
  "getContractedCapacityKwpForMonth example_env_bst
      [example_site\<lparr>onboardDate := Some ''2024-06-30''\<rparr>] ''2024-06'' = Num 0
   \<and> getContractedCapacityKwpForMonth example_env
      [example_site\<lparr>onboardDate := Some ''2024-06-30''\<rparr>] ''2024-06'' = Num 12000"
  by (simp add: getContractedCapacityKwpForMonth_def sum_systemSize_def
      has_onboardDate_def Date_parse_def parse_iso_date_def
      endOfMonth_def Number_str_def elem_or_undefined_def at_index_def Date_fields_def
      trunc_def example_env_bst_def example_env_def example_site_def calendar_defs string_defs
      fl_eval)

theorem C5_last_day_excluded_witness:
  "contractStatus (example_site\<lparr>onboardDate := Some ''2024-06-30''\<rparr>) = Yes
   \<and> Date_parse example_env_bst ''2024-06-30'' = Some 1719705600000
   \<and> endOfMonth example_env_bst ''2024-06'' = Some 1719702000000
   \<and> getContractedCapacityKwpForMonth example_env_bst
      [example_site\<lparr>onboardDate := Some ''2024-06-30''\<rparr>] ''2024-06'' = Num 0"
  using C5_last_day_excluded
  by (simp add: Date_parse_def parse_iso_date_def
      endOfMonth_def Number_str_def elem_or_undefined_def at_index_def Date_fields_def
      trunc_def example_env_bst_def example_env_def example_site_def calendar_defs string_defs
      fl_eval)

end
